theory Spec2Isabelle
  imports Main "HOL-Library.Sublist"
begin

section \<open>Text, dictionaries and exceptions\<close>

text \<open>
  A Python \<open>str\<close> is a \<^typ>\<open>string\<close>: one \<^typ>\<open>char\<close> for each character of the text.
  The glyphs of the source that lie outside the 8-bit range are spelled as the bytes of
  their UTF-8 encoding; the functions below only copy them, and nothing counts their
  length. Python's \<open>a in b\<close> on two strings is \<^term>\<open>sublist a b\<close>: \<open>a\<close> occurs in \<open>b\<close>
  as a contiguous run. \<open>b.startswith(a)\<close> is \<^term>\<open>prefix a b\<close>.
\<close>

text \<open>\<open>s.strip(chars)\<close>: drop from both ends every character that is in \<open>chars\<close>.\<close>

definition lstrip :: "string \<Rightarrow> string \<Rightarrow> string" where
  "lstrip chars s = dropWhile (\<lambda>c. c \<in> set chars) s"

definition rstrip :: "string \<Rightarrow> string \<Rightarrow> string" where
  "rstrip chars s = rev (dropWhile (\<lambda>c. c \<in> set chars) (rev s))"

definition strip :: "string \<Rightarrow> string \<Rightarrow> string" where
  "strip chars s = rstrip chars (lstrip chars s)"

text \<open>\<open>sep.join(xs)\<close>.\<close>

fun join :: "string \<Rightarrow> string list \<Rightarrow> string" where
  "join sep [] = []"
| "join sep [x] = x"
| "join sep (x # y # ys) = x @ sep @ join sep (y # ys)"

text \<open>
  A character profile is a dictionary from field names to texts. \<open>d.get(k, '')\<close> is
  \<open>get_or\<close>; the truth value of \<open>d.get(k)\<close> is \<open>truthy\<close> (a missing key gives \<open>None\<close>,
  which is false, and so is the empty text).
\<close>

type_synonym profile = "string \<rightharpoonup> string"

definition get_or :: "profile \<Rightarrow> string \<Rightarrow> string \<Rightarrow> string" where
  "get_or d k dflt = (case d k of None \<Rightarrow> dflt | Some v \<Rightarrow> v)"

definition truthy :: "string option \<Rightarrow> bool" where
  "truthy v = (case v of None \<Rightarrow> False | Some s \<Rightarrow> s \<noteq> [])"

text \<open>
  An exception (of a subclass of \<open>Exception\<close>) with the text that \<open>str(e)\<close> gives:
  a \<open>json.JSONDecodeError\<close>, or one of any other class.
\<close>

datatype exn = JSONDecodeError string | Error string

fun str_of_exn :: "exn \<Rightarrow> string" where
  "str_of_exn (JSONDecodeError s) = s"
| "str_of_exn (Error s) = s"

section \<open>The learning analysis and the profile mutator\<close>

text \<open>
  The \<open>analysis\<close> dictionary of a learning analysis: each key is either absent
  (\<open>None\<close>) or holds a value of the type the data model gives it. The result of
  \<open>analyze_conversation_patterns\<close> is a dictionary with the key \<open>success\<close> and one of
  \<open>message\<close> and \<open>analysis\<close>.
\<close>

record analysis =
  common_topics :: "string list option"
  successful_patterns :: "string list option"
  suggested_personality_additions :: "string option"
  suggested_behavior_additions :: "string option"
  speaking_style_refinements :: "string option"
  raw_response :: "string option"

record learning_analysis =
  success :: bool
  message :: "string option"
  analysis :: "analysis option"

text \<open>
  One of the three blocks of \<open>apply_learning_to_persona\<close> (memory_learning.py, lines
  135 to 153), which differ only in the profile key and the analysis key:

  \<^verbatim>\<open>if KEY in analysis and analysis[KEY]:
    current = enhanced_profile.get(FIELD, '')
    new = analysis[KEY]
    if new and new not in current:
        enhanced_profile[FIELD] = f"{current}, {new}".strip(', ')\<close>
\<close>

definition learn_field :: "string \<Rightarrow> string option \<Rightarrow> profile \<Rightarrow> profile" where
  "learn_field field suggestion enhanced_profile =
     (if truthy suggestion then
        (let current = get_or enhanced_profile field [];
             new = (case suggestion of Some s \<Rightarrow> s | None \<Rightarrow> [])
         in if new \<noteq> [] \<and> \<not> sublist new current
            then enhanced_profile(field \<mapsto> strip '', '' (current @ '', '' @ new))
            else enhanced_profile)
      else enhanced_profile)"

text \<open>
  \<open>apply_learning_to_persona\<close> on the value of the profile: the dictionary it returns,
  as a function of the dictionary it is given.
\<close>

definition apply_learning_to_persona :: "profile \<Rightarrow> learning_analysis \<Rightarrow> profile" where
  "apply_learning_to_persona character_profile learning_analysis =
     (let enhanced_profile = character_profile in
      case analysis learning_analysis of
        None \<Rightarrow> enhanced_profile
      | Some a \<Rightarrow>
          (let enhanced_profile =
                 learn_field ''personality'' (suggested_personality_additions a) enhanced_profile;
               enhanced_profile =
                 learn_field ''behaviors'' (suggested_behavior_additions a) enhanced_profile;
               enhanced_profile =
                 learn_field ''speaking_style'' (speaking_style_refinements a) enhanced_profile
           in enhanced_profile))"

text \<open>
  The same function on a store of dictionary objects, to see what it does to the object
  it is given. The store is the list of the objects allocated so far and a reference is
  an index into it. \<open>character_profile.copy()\<close> allocates a new object with the same
  items; every assignment \<open>enhanced_profile[FIELD] = ...\<close> updates the object at the
  reference \<open>enhanced_profile\<close> in place. The result is the returned reference and the
  store after the call.
\<close>

type_synonym ref = nat
type_synonym store = "profile list"

definition dict_copy :: "store \<Rightarrow> ref \<Rightarrow> ref \<times> store" where
  "dict_copy h r = (length h, h @ [h ! r])"

definition learn_field_at :: "string \<Rightarrow> string option \<Rightarrow> ref \<Rightarrow> store \<Rightarrow> store" where
  "learn_field_at field suggestion r h = h[r := learn_field field suggestion (h ! r)]"

definition apply_learning_to_persona_store ::
  "store \<Rightarrow> ref \<Rightarrow> learning_analysis \<Rightarrow> ref \<times> store" where
  "apply_learning_to_persona_store h character_profile learning_analysis =
     (case dict_copy h character_profile of (enhanced_profile, h) \<Rightarrow>
        (case analysis learning_analysis of
           None \<Rightarrow> (enhanced_profile, h)
         | Some a \<Rightarrow>
             (let h = learn_field_at ''personality'' (suggested_personality_additions a)
                        enhanced_profile h;
                  h = learn_field_at ''behaviors'' (suggested_behavior_additions a)
                        enhanced_profile h;
                  h = learn_field_at ''speaking_style'' (speaking_style_refinements a)
                        enhanced_profile h
              in (enhanced_profile, h))))"

text \<open>A suggestion that \<open>strip(', ')\<close> leaves as it is: it neither starts nor ends with a
  comma or a space.\<close>

definition trimmed :: "string option \<Rightarrow> bool" where
  "trimmed suggestion = (case suggestion of None \<Rightarrow> True | Some s \<Rightarrow> strip '', '' s = s)"

section \<open>The trait classifier\<close>

text \<open>
  \<open>str.lower()\<close> on the letters \<open>A\<close> to \<open>Z\<close>; every other character is left as it is.
\<close>

definition lower_char :: "char \<Rightarrow> char" where
  "lower_char c =
     (let n = (of_char c :: nat) in if 65 \<le> n \<and> n \<le> 90 then char_of (n + 32) else c)"

definition lower :: "string \<Rightarrow> string" where
  "lower s = map lower_char s"

record patterns =
  emoji_usage :: string
  emoji_examples :: "string list"
  tone_patterns :: "string list"
  speaking_patterns :: "string list"

definition high_emoji_keywords :: "string list" where
  "high_emoji_keywords =
     [''cheerful'', ''enthusiastic'', ''upbeat'', ''energetic'', ''bubbly'', ''expressive'',
      ''fun'', ''playful'']"

definition low_emoji_keywords :: "string list" where
  "low_emoji_keywords =
     [''serious'', ''professional'', ''formal'', ''reserved'', ''stoic'', ''academic'',
      ''scholarly'']"

text \<open>The two example sets of persona_enhancer.py, lines 23 and 29, in UTF-8.\<close>

definition high_emoji_examples :: "string list" where
  "high_emoji_examples =
     [[CHR 0xF0, CHR 0x9F, CHR 0x98, CHR 0x8A], [CHR 0xE2, CHR 0x9C, CHR 0xA8],
      [CHR 0xF0, CHR 0x9F, CHR 0x8E, CHR 0x89], [CHR 0xF0, CHR 0x9F, CHR 0x92, CHR 0xAB],
      [CHR 0xF0, CHR 0x9F, CHR 0x8C, CHR 0x9F],
      [CHR 0xE2, CHR 0x9D, CHR 0xA4, CHR 0xEF, CHR 0xB8, CHR 0x8F],
      [CHR 0xF0, CHR 0x9F, CHR 0x99, CHR 0x8C], [CHR 0xF0, CHR 0x9F, CHR 0x91, CHR 0x8D]]"

definition moderate_emoji_examples :: "string list" where
  "moderate_emoji_examples =
     [[CHR 0xF0, CHR 0x9F, CHR 0x98, CHR 0x8A], [CHR 0xF0, CHR 0x9F, CHR 0x91, CHR 0x8D],
      [CHR 0xE2, CHR 0x9C, CHR 0xA8]]"

text \<open>
  \<open>any(keyword in personality or keyword in speaking_style for keyword in keywords)\<close>.
\<close>

definition any_keyword :: "string list \<Rightarrow> string \<Rightarrow> string \<Rightarrow> bool" where
  "any_keyword keywords personality speaking_style =
     list_ex (\<lambda>keyword. sublist keyword personality \<or> sublist keyword speaking_style) keywords"

definition analyze_tone_and_emoji_patterns :: "profile \<Rightarrow> patterns" where
  "analyze_tone_and_emoji_patterns character_profile =
     (let personality = lower (get_or character_profile ''personality'' []);
          speaking_style = lower (get_or character_profile ''speaking_style'' []);
          (emoji_usage, emoji_examples) =
            (if any_keyword high_emoji_keywords personality speaking_style
             then (''high'', high_emoji_examples)
             else if any_keyword low_emoji_keywords personality speaking_style
             then (''minimal'', [])
             else (''moderate'', moderate_emoji_examples));
          tone_patterns = [];
          tone_patterns =
            (if sublist ''friendly'' personality \<or> sublist ''warm'' personality
             then tone_patterns @ [''Use warm, welcoming language''] else tone_patterns);
          tone_patterns =
            (if sublist ''professional'' personality \<or> sublist ''formal'' speaking_style
             then tone_patterns @ [''Maintain professional demeanor''] else tone_patterns);
          tone_patterns =
            (if sublist ''casual'' speaking_style \<or> sublist ''relaxed'' personality
             then tone_patterns @ [''Keep responses conversational and relaxed'']
             else tone_patterns);
          tone_patterns =
            (if sublist ''enthusiastic'' personality \<or> sublist ''excited'' personality
             then tone_patterns @ [''Show excitement with exclamation marks'']
             else tone_patterns);
          tone_patterns =
            (if sublist ''thoughtful'' personality \<or> sublist ''contemplative'' personality
             then tone_patterns @ [''Take time to reflect before responding'']
             else tone_patterns);
          tone_patterns =
            (if sublist ''humorous'' personality \<or> sublist ''witty'' personality
                \<or> sublist ''funny'' personality
             then tone_patterns @ [''Include appropriate humor and wit''] else tone_patterns);
          speaking_patterns = [];
          speaking_patterns =
            (if sublist ''short'' speaking_style \<or> sublist ''concise'' speaking_style
             then speaking_patterns @ [''Keep responses brief and to the point'']
             else if sublist ''detailed'' speaking_style \<or> sublist ''elaborate'' speaking_style
             then speaking_patterns @ [''Provide detailed, comprehensive responses'']
             else speaking_patterns);
          speaking_patterns =
            (if sublist ''questions'' personality \<or> sublist ''curious'' personality
             then speaking_patterns @ [''Ask follow-up questions naturally'']
             else speaking_patterns);
          speaking_patterns =
            (if sublist ''stories'' personality \<or> sublist ''narrative'' speaking_style
             then speaking_patterns @ [''Share relevant anecdotes and stories'']
             else speaking_patterns)
      in \<lparr>emoji_usage = emoji_usage, emoji_examples = emoji_examples,
          tone_patterns = tone_patterns, speaking_patterns = speaking_patterns\<rparr>)"

section \<open>The prompt composer\<close>

definition prompt_header :: string where
  "prompt_header =
     ''You are roleplaying as a character with the following attributes:\<newline>\<newline>''"

definition prompt_instructions :: string where
  \<open>prompt_instructions =
     ''\<newline>Instructions:\<newline>'' @
     ''- Stay in character at all times\<newline>'' @
     ''- Respond naturally as this person would\<newline>'' @
     ''- Use the speaking style and mannerisms described\<newline>'' @
     ''- Draw from the personality traits and behaviors when forming responses\<newline>'' @
     ''- Be conversational and engaging\<newline>'' @
     ''- If asked about things outside your character's knowledge, respond as that character would\<newline>''\<close>

text \<open>
  One step of \<open>generate_system_prompt\<close> (app.py, lines 25 to 41):

  \<^verbatim>\<open>if character_profile.get(KEY):
    prompt += f"LABEL{character_profile[KEY]}\n\n"\<close>
\<close>

definition add_field :: "profile \<Rightarrow> string \<Rightarrow> string \<Rightarrow> string \<Rightarrow> string" where
  "add_field character_profile key label prompt =
     (case character_profile key of
        None \<Rightarrow> prompt
      | Some v \<Rightarrow> if v \<noteq> [] then prompt @ label @ v @ ''\<newline>\<newline>'' else prompt)"

definition generate_system_prompt :: "profile \<Rightarrow> string" where
  "generate_system_prompt character_profile =
     (let prompt = prompt_header;
          prompt = add_field character_profile ''name'' ''Name: '' prompt;
          prompt = add_field character_profile ''personality'' ''Personality Traits: '' prompt;
          prompt = add_field character_profile ''behaviors'' ''Behaviors and Habits: '' prompt;
          prompt = add_field character_profile ''speaking_style'' ''Speaking Style: '' prompt;
          prompt = add_field character_profile ''mannerisms'' ''Mannerisms and Quirks: '' prompt;
          prompt = add_field character_profile ''background'' ''Background: '' prompt;
          prompt = prompt @ prompt_instructions
      in prompt)"

definition bullet_lines :: "string list \<Rightarrow> string" where
  "bullet_lines ps = join ''\<newline>'' (map (\<lambda>pattern. ''- '' @ pattern) ps)"

definition enhance_system_prompt_with_patterns :: "string \<Rightarrow> patterns \<Rightarrow> string" where
  "enhance_system_prompt_with_patterns base_prompt patterns =
     (let enhanced_prompt = base_prompt;
          enhanced_prompt =
            (if emoji_usage patterns = ''high'' then
               enhanced_prompt @
               ''\<newline>\<newline>Emoji Usage: Use emojis frequently to express emotions and add warmth. Examples: '' @
               join '', '' (emoji_examples patterns)
             else if emoji_usage patterns = ''moderate'' then
               enhanced_prompt @
               ''\<newline>\<newline>Emoji Usage: Use emojis occasionally for emphasis. Examples: '' @
               join '', '' (emoji_examples patterns)
             else if emoji_usage patterns = ''minimal'' then
               enhanced_prompt @
               ''\<newline>\<newline>Emoji Usage: Use emojis sparingly or not at all. Maintain a more formal tone.''
             else enhanced_prompt);
          enhanced_prompt =
            (if tone_patterns patterns \<noteq> [] then
               enhanced_prompt @ ''\<newline>\<newline>Tone Guidelines:\<newline>'' @
               bullet_lines (tone_patterns patterns)
             else enhanced_prompt);
          enhanced_prompt =
            (if speaking_patterns patterns \<noteq> [] then
               enhanced_prompt @ ''\<newline>\<newline>Speaking Patterns:\<newline>'' @
               bullet_lines (speaking_patterns patterns)
             else enhanced_prompt)
      in enhanced_prompt)"

text \<open>
  The system prompt that \<open>chat_with_persona\<close> builds for a profile (app.py, lines 59 to 63).
\<close>

definition enhanced_prompt :: "profile \<Rightarrow> string" where
  "enhanced_prompt character_profile =
     (let system_prompt = generate_system_prompt character_profile;
          patterns = analyze_tone_and_emoji_patterns character_profile
      in enhance_system_prompt_with_patterns system_prompt patterns)"

text \<open>
  The description of the base prompt that the specification gives: the six fields in
  their fixed order, each with its heading, and one paragraph for each field that is
  present and not blank.
\<close>

definition profile_fields :: "(string \<times> string) list" where
  "profile_fields =
     [(''name'', ''Name: ''), (''personality'', ''Personality Traits: ''),
      (''behaviors'', ''Behaviors and Habits: ''), (''speaking_style'', ''Speaking Style: ''),
      (''mannerisms'', ''Mannerisms and Quirks: ''), (''background'', ''Background: '')]"

definition present_fields :: "profile \<Rightarrow> (string \<times> string) list" where
  "present_fields character_profile =
     filter (\<lambda>(key, label). truthy (character_profile key)) profile_fields"

definition field_paragraph :: "profile \<Rightarrow> string \<times> string \<Rightarrow> string" where
  "field_paragraph character_profile =
     (\<lambda>(key, label). label @ get_or character_profile key [] @ ''\<newline>\<newline>'')"

section \<open>The feedback advisor\<close>

definition apply_feedback_to_persona :: "profile \<Rightarrow> string \<Rightarrow> string \<Rightarrow> string list" where
  \<open>apply_feedback_to_persona character_profile feedback_type response_context =
     (let suggestions = [] in
      if feedback_type = ''positive'' then
        (let suggestions = suggestions @
               [[CHR 0xE2, CHR 0x9C, CHR 0x85] @
                '' Great! The character's response style is working well in this context.''];
             suggestions = suggestions @
               [''Consider saving this persona if you haven't already.'']
         in suggestions)
      else
        (let suggestions = suggestions @
               [[CHR 0xF0, CHR 0x9F, CHR 0x92, CHR 0xA1] @ '' Here are some ways to improve:''];
             suggestions =
               (if character_profile ''speaking_style'' \<noteq> None
                then suggestions @ [''- Try adjusting the speaking style for better alignment'']
                else suggestions);
             suggestions =
               (if character_profile ''personality'' \<noteq> None
                then suggestions @
                  [''- Consider refining personality traits to better match expectations'']
                else suggestions);
             suggestions = suggestions @
               [''- Use the 'Refine' feature to get AI-powered suggestions'']
         in suggestions))\<close>

section \<open>Stored conversations\<close>

record message =
  role :: string
  content :: string

text \<open>
  The \<open>messages\<close> column of a conversation row, as the database driver hands it over:
  either the JSON text or the list already decoded. \<open>json.loads\<close> is a parameter of the
  functions that call it: it returns the decoded value or raises.
\<close>

datatype stored_messages = JsonText string | MessageList "message list"

record conversation =
  conv_id :: nat
  messages :: stored_messages
  created_at :: nat

text \<open>
  \<open>json.loads(conv['messages']) if isinstance(conv['messages'], str) else conv['messages']\<close>
\<close>

definition load_messages ::
  "(string \<Rightarrow> exn + message list) \<Rightarrow> conversation \<Rightarrow> exn + message list" where
  "load_messages json_loads conv =
     (case messages conv of JsonText s \<Rightarrow> json_loads s | MessageList ms \<Rightarrow> Inr ms)"

text \<open>
  The table \<open>conversations\<close> and \<open>get_persona_conversations\<close> of db.py (lines 348 to 376).
  Opening the connection or running the query may raise. The query keeps the rows of
  the persona and the owner (the rows without owner when \<open>user_id\<close> is false: \<open>None\<close>
  or \<open>0\<close>), orders them by \<open>created_at\<close>, latest first, and returns at most \<open>limit\<close> of
  them. Among rows of equal \<open>created_at\<close> the database is free to choose an order; the
  model takes the one of a stable sort.
\<close>

record conversation_row =
  row_id :: nat
  row_user_id :: "nat option"
  row_persona_name :: string
  row_messages :: stored_messages
  row_created_at :: nat

datatype database = Unavailable exn | Table "conversation_row list"

definition row_matches :: "string \<Rightarrow> nat option \<Rightarrow> conversation_row \<Rightarrow> bool" where
  "row_matches persona_name user_id r =
     (if user_id \<noteq> None \<and> user_id \<noteq> Some 0
      then row_persona_name r = persona_name \<and> row_user_id r = user_id
      else row_persona_name r = persona_name \<and> row_user_id r = None)"

definition selected_columns :: "conversation_row \<Rightarrow> conversation" where
  "selected_columns r =
     \<lparr>conv_id = row_id r, messages = row_messages r, created_at = row_created_at r\<rparr>"

definition get_persona_conversations ::
  "database \<Rightarrow> string \<Rightarrow> nat option \<Rightarrow> nat \<Rightarrow> exn + conversation list" where
  "get_persona_conversations db persona_name user_id limit =
     (case db of
        Unavailable e \<Rightarrow> Inl e
      | Table rows \<Rightarrow>
          Inr (take limit (map selected_columns
                 (rev (sort_key row_created_at (filter (row_matches persona_name user_id) rows))))))"

section \<open>The memory summarizer\<close>

text \<open>\<open>xs[-k]\<close> for \<open>k\<close> at least 1: the \<open>k\<close>-th element from the end, or an \<open>IndexError\<close>.\<close>

definition index_from_end :: "'a list \<Rightarrow> nat \<Rightarrow> exn + 'a" where
  "index_from_end xs k =
     (if 1 \<le> k \<and> k \<le> length xs then Inr (xs ! (length xs - k))
      else Inl (Error ''list index out of range''))"

definition summary_point :: "message \<Rightarrow> string" where
  "summary_point msg = ''- User mentioned: '' @ take 80 (content msg) @ ''...''"

text \<open>
  The inner loop of \<open>build_memory_context\<close> (memory_learning.py, lines 23 to 26), over
  the values that \<open>i\<close> still has to take.
\<close>

fun summary_loop :: "message list \<Rightarrow> nat list \<Rightarrow> string list \<Rightarrow> exn + string list" where
  "summary_loop msgs [] summary_points = Inr summary_points"
| "summary_loop msgs (i # is) summary_points =
     (case index_from_end msgs (i + 1) of
        Inl e \<Rightarrow> Inl e
      | Inr msg \<Rightarrow>
          summary_loop msgs is
            (if role msg = ''user'' then summary_points @ [summary_point msg]
             else summary_points))"

definition summary_points_of :: "message list \<Rightarrow> exn + string list" where
  "summary_points_of msgs = summary_loop msgs [0..<min 4 (length msgs)] []"

definition memory_header :: string where
  "memory_header = ''\<newline>\<newline>Memory from previous conversations:\<newline>''"

definition session_label :: string where
  "session_label = ''\<newline>Previous session:\<newline>''"

definition memory_footer :: string where
  "memory_footer = ''\<newline>\<newline>Use these memories naturally in conversation when relevant.''"

text \<open>The outer loop (lines 18 to 29), over the conversations still to visit.\<close>

fun conversations_loop ::
  "(string \<Rightarrow> exn + message list) \<Rightarrow> conversation list \<Rightarrow> string \<Rightarrow> exn + string" where
  "conversations_loop json_loads [] memory_context = Inr memory_context"
| "conversations_loop json_loads (conv # convs) memory_context =
     (case load_messages json_loads conv of
        Inl e \<Rightarrow> Inl e
      | Inr msgs \<Rightarrow>
          (case summary_points_of msgs of
             Inl e \<Rightarrow> Inl e
           | Inr summary_points \<Rightarrow>
               conversations_loop json_loads convs
                 (if summary_points \<noteq> []
                  then memory_context @ session_label @
                         join ''\<newline>'' (take 2 summary_points)
                  else memory_context)))"

text \<open>
  \<open>build_memory_context\<close>: \<open>db_module\<close> is the storage capability
  \<open>db_module.get_persona_conversations\<close>, called with \<open>limit=3\<close>. Whatever is raised
  inside the \<open>try\<close> block ends in the handler, which returns the empty text.
\<close>

definition build_memory_context ::
  "(string \<Rightarrow> exn + message list) \<Rightarrow> string \<Rightarrow>
   (string \<Rightarrow> nat option \<Rightarrow> nat \<Rightarrow> exn + conversation list) \<Rightarrow> nat option \<Rightarrow> string" where
  "build_memory_context json_loads persona_name db_module user_id =
     (case db_module persona_name user_id 3 of
        Inl e \<Rightarrow> []
      | Inr recent_conversations \<Rightarrow>
          if recent_conversations = [] then []
          else
            (case conversations_loop json_loads recent_conversations memory_header of
               Inl e \<Rightarrow> []
             | Inr memory_context \<Rightarrow> memory_context @ memory_footer))"

text \<open>
  What the loops compute, said directly: the user messages among the last four
  messages of a conversation, latest first, and of those the first two.
\<close>

definition recent_user_messages :: "message list \<Rightarrow> message list" where
  "recent_user_messages msgs =
     take 2 (filter (\<lambda>m. role m = ''user'') (take 4 (rev msgs)))"

definition session_block :: "message list \<Rightarrow> string" where
  "session_block msgs =
     (if recent_user_messages msgs = [] then []
      else session_label @ join ''\<newline>'' (map summary_point (recent_user_messages msgs)))"

section \<open>The conversation analyzer\<close>

text \<open>\<open>str(n)\<close> for a natural number: its decimal digits.\<close>

fun str_of_nat :: "nat \<Rightarrow> string" where
  "str_of_nat n =
     (if n < 10 then [char_of (48 + n)] else str_of_nat (n div 10) @ [char_of (48 + n mod 10)])"

declare str_of_nat.simps [simp del]

text \<open>
  \<open>s.split(sep)\<close>: the pieces of \<open>s\<close> between the occurrences of \<open>sep\<close>, found from left
  to right without overlap. An empty separator raises \<open>ValueError\<close>.
\<close>

function split_pieces :: "string \<Rightarrow> string \<Rightarrow> string list" where
  "split_pieces sep [] = [[]]"
| "split_pieces sep (c # s) =
     (if sep \<noteq> [] \<and> prefix sep (c # s)
      then [] # split_pieces sep (drop (length sep) (c # s))
      else (case split_pieces sep s of
              piece # pieces \<Rightarrow> (c # piece) # pieces
            | [] \<Rightarrow> [[c]]))"
  by pat_completeness auto
termination
  by (relation "measure (\<lambda>(sep, s). length s)") (auto simp: Suc_le_eq)

definition split :: "string \<Rightarrow> string \<Rightarrow> exn + string list" where
  "split s sep = (if sep = [] then Inl (Error ''empty separator'') else Inr (split_pieces sep s))"

text \<open>\<open>xs[i]\<close> for \<open>i\<close> at least 0.\<close>

definition index :: "'a list \<Rightarrow> nat \<Rightarrow> exn + 'a" where
  "index xs i = (if i < length xs then Inr (xs ! i) else Inl (Error ''list index out of range''))"

text \<open>
  The characters that \<open>str.strip()\<close> without argument removes, those for which
  \<open>str.isspace()\<close> holds, among the characters of the 8-bit range: tab, line feed,
  vertical tab, form feed, carriage return, the four separators 28 to 31, the space,
  the next-line character \<open>0x85\<close> and the no-break space \<open>0xA0\<close>.
\<close>

definition whitespace :: string where
  "whitespace =
     [CHR 0x09, CHR 0x0A, CHR 0x0B, CHR 0x0C, CHR 0x0D, CHR 0x1C, CHR 0x1D, CHR 0x1E, CHR 0x1F,
      CHR '' '', CHR 0x85, CHR 0xA0]"

definition fence :: string where
  "fence = ''```''"

text \<open>
  Lines 91 to 96: the text handed to \<open>json.loads\<close>.

  \<^verbatim>\<open>text = response.text.strip()
if text.startswith(FENCE):
    text = text.split(FENCE)[1]
    if text.startswith('json'):
        text = text[4:]\<close>
\<close>

definition cleaned_text :: "string \<Rightarrow> exn + string" where
  "cleaned_text response_text =
     (let text = strip whitespace response_text in
      if prefix fence text then
        (case split text fence of
           Inl e \<Rightarrow> Inl e
         | Inr pieces \<Rightarrow>
             (case index pieces 1 of
                Inl e \<Rightarrow> Inl e
              | Inr text \<Rightarrow> Inr (if prefix ''json'' text then drop 4 text else text)))
      else Inr text)"

text \<open>The prompt of lines 53 to 82.\<close>

definition analysis_prompt :: "string \<Rightarrow> message list \<Rightarrow> string" where
  \<open>analysis_prompt persona_name all_messages =
     (let user_messages = map content (filter (\<lambda>msg. role msg = ''user'') all_messages);
          assistant_messages =
            map content (filter (\<lambda>msg. role msg = ''assistant'') all_messages)
      in ''Analyze these conversations with the persona "'' @ persona_name @
         ''" to identify patterns and learning opportunities.\<newline>\<newline>Total exchanges: '' @
         str_of_nat (length all_messages div 2) @
         ''\<newline>\<newline>Sample user messages (first 5):\<newline>'' @
         join ''\<newline>'' (take 5 user_messages) @
         ''\<newline>\<newline>Sample assistant responses (first 5):\<newline>'' @
         join ''\<newline>'' (take 5 assistant_messages) @
         ''\<newline>\<newline>Latest user messages (last 3):\<newline>'' @
         join ''\<newline>'' (drop (length user_messages - 3) user_messages) @
         ''\<newline>\<newline>Latest assistant responses (last 3):\<newline>'' @
         join ''\<newline>'' (drop (length assistant_messages - 3) assistant_messages) @
         ''\<newline>\<newline>Analyze:\<newline>'' @
         ''1. What topics does the user frequently discuss?\<newline>'' @
         ''2. What response patterns are working well?\<newline>'' @
         ''3. What speaking patterns has the persona developed?\<newline>'' @
         ''4. What improvements would make the persona more authentic?\<newline>\<newline>'' @
         ''Provide a JSON response with these fields:\<newline>{\<newline>'' @
         ''    "common_topics": ["topic1", "topic2", "topic3"],\<newline>'' @
         ''    "successful_patterns": ["pattern1", "pattern2"],\<newline>'' @
         ''    "suggested_personality_additions": "text describing additional personality traits based on conversations",\<newline>'' @
         ''    "suggested_behavior_additions": "text describing new behaviors observed or needed",\<newline>'' @
         ''    "speaking_style_refinements": "text describing speaking style improvements"\<newline>}'')\<close>

text \<open>
  The completion capability \<open>client.models.generate_content(model, contents)\<close>: it
  raises, or returns a response whose \<open>text\<close> is a string or \<open>None\<close>. A request is the
  pair of the arguments of one call.
\<close>

type_synonym completion = "string \<Rightarrow> string \<Rightarrow> exn + string option"
type_synonym request = "string \<times> string"

definition failure :: "string \<Rightarrow> learning_analysis" where
  "failure msg = \<lparr>success = False, message = Some msg, analysis = None\<rparr>"

text \<open>The handler of lines 117 to 121.\<close>

definition error_result :: "exn \<Rightarrow> learning_analysis" where
  "error_result e = failure (''Error analyzing patterns: '' @ str_of_exn e)"

definition raw_analysis :: "string \<Rightarrow> analysis" where
  "raw_analysis text =
     \<lparr>common_topics = None, successful_patterns = None,
      suggested_personality_additions = None, suggested_behavior_additions = None,
      speaking_style_refinements = None, raw_response = Some text\<rparr>"

text \<open>
  \<open>analyze_conversation_patterns\<close>: \<open>db_module\<close> is the storage capability
  \<open>db_module.get_all_persona_messages\<close> and \<open>client\<close> the completion capability. The
  result is the dictionary returned, with the requests sent to the completion
  capability during the call.
\<close>

definition analyze_conversation_patterns ::
  "(string \<Rightarrow> exn + analysis) \<Rightarrow> string \<Rightarrow> (string \<Rightarrow> nat option \<Rightarrow> exn + message list) \<Rightarrow>
   completion \<Rightarrow> nat option \<Rightarrow> learning_analysis \<times> request list" where
  "analyze_conversation_patterns json_loads persona_name db_module client user_id =
     (case db_module persona_name user_id of
        Inl e \<Rightarrow> (error_result e, [])
      | Inr all_messages \<Rightarrow>
          if length all_messages < 10 then
            (failure ''Need at least 5 conversation exchanges (10 messages) to analyze patterns.'',
             [])
          else
            (let request = (''gemini-2.0-flash-exp'', analysis_prompt persona_name all_messages)
             in case client (fst request) (snd request) of
                  Inl e \<Rightarrow> (error_result e, [request])
                | Inr response_text \<Rightarrow>
                    if truthy response_text then
                      (case cleaned_text (case response_text of Some t \<Rightarrow> t | None \<Rightarrow> []) of
                         Inl e \<Rightarrow> (error_result e, [request])
                       | Inr text \<Rightarrow>
                           (case json_loads text of
                              Inr a \<Rightarrow>
                                (\<lparr>success = True, message = None, analysis = Some a\<rparr>, [request])
                            | Inl (JSONDecodeError m) \<Rightarrow>
                                (\<lparr>success = True, message = None,
                                  analysis = Some (raw_analysis text)\<rparr>, [request])
                            | Inl (Error m) \<Rightarrow> (error_result (Error m), [request])))
                    else (failure ''Unable to generate analysis at this time.'', [request])))"

section \<open>Example inputs\<close>

definition kind_profile :: profile where
  "kind_profile = [''personality'' \<mapsto> ''kind'']"

definition suggest_personality :: "string \<Rightarrow> learning_analysis" where
  "suggest_personality s =
     \<lparr>success = True, message = None,
      analysis = Some \<lparr>common_topics = None, successful_patterns = None,
        suggested_personality_additions = Some s, suggested_behavior_additions = None,
        speaking_style_refinements = None, raw_response = None\<rparr>\<rparr>"

definition cheerful_profile :: profile where
  "cheerful_profile = [''personality'' \<mapsto> ''Cheerful, optimistic'']"

definition formal_profile :: profile where
  "formal_profile = [''personality'' \<mapsto> ''Formal and reserved'']"

definition alex_profile :: profile where
  "alex_profile = [''name'' \<mapsto> ''Alex'', ''personality'' \<mapsto> ''kind'']"

definition no_json :: "string \<Rightarrow> exn + 'a" where
  "no_json s = Inl (JSONDecodeError ''Expecting value'')"

definition row_of :: "stored_messages \<Rightarrow> conversation_row" where
  "row_of ms =
     \<lparr>row_id = 1, row_user_id = None, row_persona_name = ''Alex'', row_messages = ms,
      row_created_at = 1\<rparr>"


definition greeting :: "message list" where
  "greeting = [\<lparr>role = ''user'', content = ''hi''\<rparr>, \<lparr>role = ''assistant'', content = ''hello''\<rparr>]"


definition broken_db :: database where
  "broken_db = Table [row_of (JsonText ''{'')]"

definition down_db :: database where
  "down_db = Unavailable (Error ''connection refused'')"




definition exchanges :: "nat \<Rightarrow> message list" where
  "exchanges n = concat (replicate n greeting)"

definition stored_history :: "message list \<Rightarrow> string \<Rightarrow> nat option \<Rightarrow> exn + message list" where
  "stored_history msgs persona_name user_id = Inr msgs"

definition reply :: "string \<Rightarrow> completion" where
  "reply text model contents = Inr (Some text)"

definition topics_analysis :: analysis where
  "topics_analysis =
     \<lparr>common_topics = Some [''travel''], successful_patterns = None,
      suggested_personality_additions = None, suggested_behavior_additions = None,
      speaking_style_refinements = None, raw_response = None\<rparr>"

definition loads_topics :: "string \<Rightarrow> exn + analysis" where
  \<open>loads_topics s =
     (if s = ''{"common_topics": ["travel"]}'' then Inr topics_analysis
      else Inl (JSONDecodeError ''Expecting value''))\<close>

definition deep_text :: string where
  "deep_text = replicate 1000 (CHR ''['')"

definition loads_deep :: "string \<Rightarrow> exn + analysis" where
  "loads_deep s =
     (if s = deep_text
      then Inl (Error ''maximum recursion depth exceeded while decoding a JSON array from a unicode string'')
      else Inl (JSONDecodeError ''Expecting value''))"

definition blank_style_profile :: profile where
  "blank_style_profile = kind_profile(''speaking_style'' \<mapsto> [])"

section \<open>Facts about text\<close>

lemma length_lstrip_le: "length (lstrip cs s) \<le> length s"
  by (simp add: lstrip_def length_dropWhile_le)

lemma length_rstrip_le: "length (rstrip cs s) \<le> length s"
  unfolding rstrip_def by (metis length_rev length_dropWhile_le)

lemma lstrip_keep: "s \<noteq> [] \<Longrightarrow> hd s \<notin> set cs \<Longrightarrow> lstrip cs s = s"
  by (cases s) (simp_all add: lstrip_def)

lemma rstrip_keep: "s \<noteq> [] \<Longrightarrow> last s \<notin> set cs \<Longrightarrow> rstrip cs s = s"
  by (cases s rule: rev_cases) (simp_all add: rstrip_def)

lemma lstrip_shorter: "s \<noteq> [] \<Longrightarrow> hd s \<in> set cs \<Longrightarrow> length (lstrip cs s) < length s"
  by (cases s) (simp_all add: lstrip_def le_imp_less_Suc length_dropWhile_le)

lemma rstrip_shorter:
  assumes "s \<noteq> []" "last s \<in> set cs"
  shows "length (rstrip cs s) < length s"
proof (cases s rule: rev_cases)
  case Nil
  with assms(1) show ?thesis by simp
next
  case (snoc ys y)
  with assms(2) have "rstrip cs s = rstrip cs ys" by (simp add: rstrip_def)
  moreover have "length (rstrip cs ys) \<le> length ys" by (rule length_rstrip_le)
  ultimately show ?thesis using snoc by simp
qed

lemma strip_fixed_iff:
  "strip cs s = s \<longleftrightarrow> (s = [] \<or> hd s \<notin> set cs \<and> last s \<notin> set cs)"
proof (cases "s = []")
  case True
  then show ?thesis by (simp add: strip_def lstrip_def rstrip_def)
next
  case ne: False
  show ?thesis
  proof
    assume fixed: "strip cs s = s"
    have h: "hd s \<notin> set cs"
    proof
      assume "hd s \<in> set cs"
      with ne have "length (lstrip cs s) < length s" by (rule lstrip_shorter)
      moreover have "length (strip cs s) \<le> length (lstrip cs s)"
        by (simp add: strip_def length_rstrip_le)
      ultimately show False using fixed by simp
    qed
    then have l: "lstrip cs s = s" using ne by (simp add: lstrip_keep)
    have "last s \<notin> set cs"
    proof
      assume "last s \<in> set cs"
      with ne have "length (rstrip cs s) < length s" by (rule rstrip_shorter)
      then show False using fixed l by (simp add: strip_def)
    qed
    with h show "s = [] \<or> hd s \<notin> set cs \<and> last s \<notin> set cs" by simp
  next
    assume "s = [] \<or> hd s \<notin> set cs \<and> last s \<notin> set cs"
    with ne show "strip cs s = s" by (simp add: strip_def lstrip_keep rstrip_keep)
  qed
qed

lemma lstrip_append_keep:
  assumes "new \<noteq> []" "hd new \<notin> set cs"
  shows "\<exists>ys. lstrip cs (xs @ new) = ys @ new"
proof (cases "\<forall>x\<in>set xs. x \<in> set cs")
  case True
  then have "lstrip cs (xs @ new) = lstrip cs new"
    by (simp add: lstrip_def dropWhile_append)
  then show ?thesis using assms by (simp add: lstrip_keep)
next
  case False
  then have "lstrip cs (xs @ new) = lstrip cs xs @ new"
    by (auto simp add: lstrip_def dropWhile_append)
  then show ?thesis by blast
qed

lemma sublist_strip_append:
  assumes "new \<noteq> []" "strip cs new = new"
  shows "sublist new (strip cs (xs @ new))"
proof -
  from assms have h: "hd new \<notin> set cs" and l: "last new \<notin> set cs"
    by (simp_all add: strip_fixed_iff)
  from lstrip_append_keep[OF assms(1) h] obtain ys where ys: "lstrip cs (xs @ new) = ys @ new"
    by blast
  have "rstrip cs (ys @ new) = ys @ new"
    using assms(1) l by (simp add: rstrip_keep)
  then show ?thesis by (simp add: strip_def ys)
qed

section \<open>The profile mutator\<close>

lemma learn_field_idem:
  assumes "trimmed s"
  shows "learn_field k s (learn_field k s P) = learn_field k s P"
proof (cases "truthy s")
  case False
  then show ?thesis by (simp add: learn_field_def)
next
  case True
  then obtain new where s: "s = Some new" and ne: "new \<noteq> []"
    by (auto simp: truthy_def split: option.splits)
  from assms s have fx: "strip '', '' new = new" by (simp add: trimmed_def)
  show ?thesis
  proof (cases "sublist new (get_or P k [])")
    case True
    then show ?thesis by (simp add: learn_field_def s Let_def)
  next
    case False
    have "sublist new (strip '', '' ((get_or P k [] @ '', '') @ new))"
      using ne fx by (rule sublist_strip_append)
    then show ?thesis using False
      by (simp add: learn_field_def s Let_def truthy_def ne get_or_def)
  qed
qed

lemma learn_field_other: "k' \<noteq> k \<Longrightarrow> learn_field k s P k' = P k'"
  by (simp add: learn_field_def Let_def)

lemma learn_field_commute:
  assumes "k \<noteq> k'"
  shows "learn_field k s (learn_field k' s' P) = learn_field k' s' (learn_field k s P)"
  using assms
  by (auto simp: learn_field_def Let_def get_or_def fun_upd_twist)

lemma apply_learning_frame:
  assumes "k \<noteq> ''personality''" "k \<noteq> ''behaviors''" "k \<noteq> ''speaking_style''"
  shows "apply_learning_to_persona P A k = P k"
proof (cases "analysis A")
  case None
  then show ?thesis by (simp add: apply_learning_to_persona_def)
next
  case (Some a)
  show ?thesis
    unfolding apply_learning_to_persona_def Let_def Some option.case
    by (simp only: learn_field_other[OF assms(1)] learn_field_other[OF assms(2)]
        learn_field_other[OF assms(3)])
qed

lemma store_result:
  "p < length h \<Longrightarrow> apply_learning_to_persona_store h p A =
     (length h, h @ [apply_learning_to_persona (h ! p) A])"
  by (simp add: apply_learning_to_persona_store_def dict_copy_def learn_field_at_def
      apply_learning_to_persona_def Let_def nth_append split: option.splits)

lemma kind_brave_once:
  "apply_learning_to_persona kind_profile (suggest_personality ''brave '') ''personality''
     = Some ''kind, brave''"
  by (simp add: kind_profile_def suggest_personality_def apply_learning_to_persona_def
      learn_field_def truthy_def get_or_def strip_def lstrip_def rstrip_def Let_def
      sublist_Cons_right)

lemma kind_brave_twice:
  "apply_learning_to_persona
     (apply_learning_to_persona kind_profile (suggest_personality ''brave ''))
     (suggest_personality ''brave '') ''personality'' = Some ''kind, brave, brave''"
  by (simp add: kind_profile_def suggest_personality_def apply_learning_to_persona_def
      learn_field_def truthy_def get_or_def strip_def lstrip_def rstrip_def Let_def
      sublist_Cons_right)

text \<open>
  C1, as stated: applying the mutation twice with the same successful analysis gives the
  same profile as applying it once. It fails for the profile with personality \<open>kind\<close>
  and the suggestion \<open>brave\<close> followed by a space: the first application stores
  \<open>kind, brave\<close> (the trim removes the space), in which the suggestion does not occur,
  so the second application appends it again.
\<close>

theorem apply_learning_not_idempotent:
  "success (suggest_personality ''brave '') \<and>
   apply_learning_to_persona
     (apply_learning_to_persona kind_profile (suggest_personality ''brave ''))
     (suggest_personality ''brave '')
   \<noteq> apply_learning_to_persona kind_profile (suggest_personality ''brave '')"
proof -
  have "apply_learning_to_persona
     (apply_learning_to_persona kind_profile (suggest_personality ''brave ''))
     (suggest_personality ''brave '') ''personality''
   \<noteq> apply_learning_to_persona kind_profile (suggest_personality ''brave '') ''personality''"
    by (simp only: kind_brave_once kind_brave_twice) simp
  then have "apply_learning_to_persona
     (apply_learning_to_persona kind_profile (suggest_personality ''brave ''))
     (suggest_personality ''brave '')
   \<noteq> apply_learning_to_persona kind_profile (suggest_personality ''brave '')"
    by (rule contrapos_nn) (erule arg_cong)
  then show ?thesis by (simp add: suggest_personality_def)
qed

text \<open>
  C1, amended: for every profile and every successful analysis whose three suggestions
  neither start nor end with a comma or a space, applying the mutation twice with the
  same analysis gives the same profile as applying it once.
\<close>

theorem apply_learning_idempotent_trimmed:
  assumes "analysis A = Some a"
    and "trimmed (suggested_personality_additions a)"
    and "trimmed (suggested_behavior_additions a)"
    and "trimmed (speaking_style_refinements a)"
  shows "apply_learning_to_persona (apply_learning_to_persona P A) A
         = apply_learning_to_persona P A"
proof -
  let ?f1 = "learn_field ''personality'' (suggested_personality_additions a)"
  let ?f2 = "learn_field ''behaviors'' (suggested_behavior_additions a)"
  let ?f3 = "learn_field ''speaking_style'' (speaking_style_refinements a)"
  have c12: "\<And>Q. ?f1 (?f2 Q) = ?f2 (?f1 Q)" by (rule learn_field_commute) simp
  have c13: "\<And>Q. ?f1 (?f3 Q) = ?f3 (?f1 Q)" by (rule learn_field_commute) simp
  have c23: "\<And>Q. ?f2 (?f3 Q) = ?f3 (?f2 Q)" by (rule learn_field_commute) simp
  have "?f3 (?f2 (?f1 (?f3 (?f2 (?f1 P))))) = ?f3 (?f3 (?f2 (?f2 (?f1 (?f1 P)))))"
    by (simp only: c12 c13 c23)
  also have "\<dots> = ?f3 (?f2 (?f1 P))"
    using assms(2-4) by (simp only: learn_field_idem)
  finally show ?thesis
    by (simp add: apply_learning_to_persona_def assms(1) Let_def)
qed

theorem apply_learning_idempotent_trimmed_witness:
  "apply_learning_to_persona
     (apply_learning_to_persona kind_profile (suggest_personality ''brave''))
     (suggest_personality ''brave'')
   = apply_learning_to_persona kind_profile (suggest_personality ''brave'') \<and>
   apply_learning_to_persona kind_profile (suggest_personality ''brave'') ''personality''
   = Some ''kind, brave''"
proof -
  have t: "trimmed (Some ''brave'')" "trimmed None"
    by (simp_all add: trimmed_def strip_def lstrip_def rstrip_def)
  have "apply_learning_to_persona
     (apply_learning_to_persona kind_profile (suggest_personality ''brave''))
     (suggest_personality ''brave'')
   = apply_learning_to_persona kind_profile (suggest_personality ''brave'')"
    using apply_learning_idempotent_trimmed
            [of "suggest_personality ''brave''" "the (analysis (suggest_personality ''brave''))"
                kind_profile] t
    by (simp add: suggest_personality_def)
  moreover have
    "apply_learning_to_persona kind_profile (suggest_personality ''brave'') ''personality''
     = Some ''kind, brave''"
    by (simp add: kind_profile_def suggest_personality_def apply_learning_to_persona_def
      learn_field_def truthy_def get_or_def strip_def lstrip_def rstrip_def Let_def
      sublist_Cons_right)
  ultimately show ?thesis by simp
qed

text \<open>
  C8: called on a reference to a profile object, the mutator returns a reference to a
  new object and leaves every object that existed before the call, the given one among
  them, as it was; in the returned profile every field other than \<open>personality\<close>,
  \<open>behaviors\<close> and \<open>speaking_style\<close>, so \<open>name\<close> and \<open>background\<close>, has the value it has
  in the given one.
\<close>

theorem apply_learning_leaves_input:
  assumes "p < length h"
  shows "case apply_learning_to_persona_store h p A of (q, h') \<Rightarrow>
           q \<noteq> p \<and> q = length h \<and> length h' = Suc (length h) \<and>
           (\<forall>r<length h. h' ! r = h ! r) \<and> h' ! p = h ! p \<and>
           h' ! q = apply_learning_to_persona (h ! p) A \<and>
           (h' ! q) ''name'' = (h ! p) ''name'' \<and>
           (h' ! q) ''background'' = (h ! p) ''background'' \<and>
           (\<forall>k. k \<noteq> ''personality'' \<and> k \<noteq> ''behaviors'' \<and> k \<noteq> ''speaking_style''
              \<longrightarrow> (h' ! q) k = (h ! p) k)"
proof -
  have fr: "\<And>k. k \<noteq> ''personality'' \<and> k \<noteq> ''behaviors'' \<and> k \<noteq> ''speaking_style''
              \<Longrightarrow> apply_learning_to_persona (h ! p) A k = (h ! p) k"
    by (rule apply_learning_frame) simp_all
  have n: "apply_learning_to_persona (h ! p) A ''name'' = (h ! p) ''name''"
    by (rule fr) simp
  have b: "apply_learning_to_persona (h ! p) A ''background'' = (h ! p) ''background''"
    by (rule fr) simp
  show ?thesis
    unfolding store_result[OF assms] prod.case
    using assms n b fr by (simp add: nth_append)
qed

theorem apply_learning_leaves_input_witness:
  "(0::nat) < length [kind_profile] \<and>
   (case apply_learning_to_persona_store [kind_profile] 0 (suggest_personality ''brave'') of
      (q, h') \<Rightarrow> q = 1 \<and> h' ! 0 = kind_profile \<and> (h' ! q) ''name'' = None \<and>
        (h' ! q) ''personality'' = Some ''kind, brave'')"
proof -
  obtain q h' where r:
    "apply_learning_to_persona_store [kind_profile] 0 (suggest_personality ''brave'') = (q, h')"
    by (cases "apply_learning_to_persona_store [kind_profile] 0 (suggest_personality ''brave'')")
  have l: "(0::nat) < length [kind_profile]" by simp
  from apply_learning_leaves_input[OF l, of "suggest_personality ''brave''"]
  have f: "q = length [kind_profile] \<and> h' ! 0 = [kind_profile] ! 0 \<and>
           h' ! q = apply_learning_to_persona ([kind_profile] ! 0) (suggest_personality ''brave'') \<and>
           (h' ! q) ''name'' = ([kind_profile] ! 0) ''name''"
    unfolding r prod.case by blast
  have v: "apply_learning_to_persona kind_profile (suggest_personality ''brave'') ''personality''
     = Some ''kind, brave''"
    by (simp add: kind_profile_def suggest_personality_def apply_learning_to_persona_def
      learn_field_def truthy_def get_or_def strip_def lstrip_def rstrip_def Let_def
      sublist_Cons_right)
  have n: "kind_profile ''name'' = None" by (simp add: kind_profile_def)
  from f v n show ?thesis unfolding r prod.case by auto
qed

section \<open>The trait classifier\<close>

lemma sublist_lower: "sublist w s \<Longrightarrow> sublist (lower w) (lower s)"
  unfolding lower_def by (rule map_mono_sublist)

lemma any_keyword_iff:
  "any_keyword ks p s \<longleftrightarrow> (\<exists>k\<in>set ks. sublist k p \<or> sublist k s)"
  by (simp add: any_keyword_def list_ex_iff)

lemma emoji_usage_analyze:
  "emoji_usage (analyze_tone_and_emoji_patterns P) =
     (let p = lower (get_or P ''personality'' []); s = lower (get_or P ''speaking_style'' [])
      in if any_keyword high_emoji_keywords p s then ''high''
         else if any_keyword low_emoji_keywords p s then ''minimal'' else ''moderate'')"
  by (simp add: analyze_tone_and_emoji_patterns_def Let_def split_beta)

lemma emoji_examples_analyze:
  "emoji_examples (analyze_tone_and_emoji_patterns P) =
     (let p = lower (get_or P ''personality'' []); s = lower (get_or P ''speaking_style'' [])
      in if any_keyword high_emoji_keywords p s then high_emoji_examples
         else if any_keyword low_emoji_keywords p s then [] else moderate_emoji_examples)"
  by (simp add: analyze_tone_and_emoji_patterns_def Let_def split_beta)

lemma high_emoji_examples_shape:
  "length high_emoji_examples = 8 \<and> distinct high_emoji_examples \<and> high_emoji_examples \<noteq> []"
  by (simp add: high_emoji_examples_def)

lemma moderate_emoji_examples_shape:
  "length moderate_emoji_examples = 3 \<and> distinct moderate_emoji_examples"
  by (simp add: moderate_emoji_examples_def)

text \<open>
  C2: with \<open>personality\<close> and \<open>speaking_style\<close> the lower-cased texts of the two fields
  (the empty text for a missing field): if one of the eight high-emoji keywords occurs in
  one of them, the classifier returns \<open>high\<close> with the fixed set of eight glyphs;
  otherwise, if one of the seven low-emoji keywords occurs, \<open>minimal\<close> with no examples;
  otherwise \<open>moderate\<close> with the fixed set of three glyphs. So \<open>cheerful\<close> in the
  personality, in whatever letter case, gives \<open>high\<close> with examples, and \<open>formal\<close> with no
  high-emoji keyword gives \<open>minimal\<close> with none.
\<close>

theorem emoji_decision_precedence:
  "let personality = lower (get_or P ''personality'' []);
       speaking_style = lower (get_or P ''speaking_style'' []);
       high = (\<exists>k\<in>set [''cheerful'', ''enthusiastic'', ''upbeat'', ''energetic'', ''bubbly'',
                         ''expressive'', ''fun'', ''playful''].
                 sublist k personality \<or> sublist k speaking_style);
       low = (\<exists>k\<in>set [''serious'', ''professional'', ''formal'', ''reserved'', ''stoic'',
                        ''academic'', ''scholarly''].
                 sublist k personality \<or> sublist k speaking_style);
       r = analyze_tone_and_emoji_patterns P
   in (high \<longrightarrow> emoji_usage r = ''high'' \<and> emoji_examples r = high_emoji_examples) \<and>
      (\<not> high \<and> low \<longrightarrow> emoji_usage r = ''minimal'' \<and> emoji_examples r = []) \<and>
      (\<not> high \<and> \<not> low \<longrightarrow>
         emoji_usage r = ''moderate'' \<and> emoji_examples r = moderate_emoji_examples) \<and>
      length high_emoji_examples = 8 \<and> distinct high_emoji_examples \<and>
      length moderate_emoji_examples = 3 \<and> distinct moderate_emoji_examples \<and>
      (sublist ''cheerful'' personality \<longrightarrow> emoji_usage r = ''high'' \<and> emoji_examples r \<noteq> []) \<and>
      (\<forall>w. lower w = ''cheerful'' \<and> sublist w (get_or P ''personality'' []) \<longrightarrow>
         emoji_usage r = ''high'' \<and> emoji_examples r \<noteq> []) \<and>
      (sublist ''formal'' personality \<and> \<not> high \<longrightarrow>
         emoji_usage r = ''minimal'' \<and> emoji_examples r = [])"
proof -
  define personality where "personality = lower (get_or P ''personality'' [])"
  define speaking_style where "speaking_style = lower (get_or P ''speaking_style'' [])"
  define high where "high = any_keyword high_emoji_keywords personality speaking_style"
  define low where "low = any_keyword low_emoji_keywords personality speaking_style"
  define r where "r = analyze_tone_and_emoji_patterns P"
  have u: "emoji_usage r = (if high then ''high'' else if low then ''minimal'' else ''moderate'')"
    unfolding r_def high_def low_def personality_def speaking_style_def
    by (simp only: emoji_usage_analyze Let_def)
  have e: "emoji_examples r =
      (if high then high_emoji_examples else if low then [] else moderate_emoji_examples)"
    unfolding r_def high_def low_def personality_def speaking_style_def
    by (simp only: emoji_examples_analyze Let_def)
  have c1: "high \<longrightarrow> emoji_usage r = ''high'' \<and> emoji_examples r = high_emoji_examples"
    by (simp add: u e)
  have c2: "\<not> high \<and> low \<longrightarrow> emoji_usage r = ''minimal'' \<and> emoji_examples r = []"
    by (simp add: u e)
  have c3: "\<not> high \<and> \<not> low \<longrightarrow>
         emoji_usage r = ''moderate'' \<and> emoji_examples r = moderate_emoji_examples"
    by (simp add: u e)
  have ch: "sublist ''cheerful'' personality \<longrightarrow> high"
    unfolding high_def any_keyword_iff high_emoji_keywords_def by simp
  have c5: "sublist ''cheerful'' personality \<longrightarrow>
       emoji_usage r = ''high'' \<and> emoji_examples r \<noteq> []"
    using ch c1 high_emoji_examples_shape by auto
  have c6: "\<forall>w. lower w = ''cheerful'' \<and> sublist w (get_or P ''personality'' []) \<longrightarrow>
         emoji_usage r = ''high'' \<and> emoji_examples r \<noteq> []"
  proof (intro allI impI)
    fix w assume a: "lower w = ''cheerful'' \<and> sublist w (get_or P ''personality'' [])"
    then have "sublist (lower w) (lower (get_or P ''personality'' []))"
      by (intro sublist_lower) simp
    with a have "sublist ''cheerful'' personality"
      unfolding personality_def by (elim conjE) (simp only:)
    with c5 show "emoji_usage r = ''high'' \<and> emoji_examples r \<noteq> []" by blast
  qed
  have fl: "sublist ''formal'' personality \<longrightarrow> low"
    unfolding low_def any_keyword_iff low_emoji_keywords_def by simp
  have c7: "sublist ''formal'' personality \<and> \<not> high \<longrightarrow>
         emoji_usage r = ''minimal'' \<and> emoji_examples r = []"
    using fl c2 by blast
  have hi: "high = (\<exists>k\<in>set [''cheerful'', ''enthusiastic'', ''upbeat'', ''energetic'', ''bubbly'',
                         ''expressive'', ''fun'', ''playful''].
                 sublist k personality \<or> sublist k speaking_style)"
    unfolding high_def any_keyword_iff high_emoji_keywords_def ..
  have lo: "low = (\<exists>k\<in>set [''serious'', ''professional'', ''formal'', ''reserved'', ''stoic'',
                        ''academic'', ''scholarly''].
                 sublist k personality \<or> sublist k speaking_style)"
    unfolding low_def any_keyword_iff low_emoji_keywords_def ..
  have "(high \<longrightarrow> emoji_usage r = ''high'' \<and> emoji_examples r = high_emoji_examples) \<and>
      (\<not> high \<and> low \<longrightarrow> emoji_usage r = ''minimal'' \<and> emoji_examples r = []) \<and>
      (\<not> high \<and> \<not> low \<longrightarrow>
         emoji_usage r = ''moderate'' \<and> emoji_examples r = moderate_emoji_examples) \<and>
      length high_emoji_examples = 8 \<and> distinct high_emoji_examples \<and>
      length moderate_emoji_examples = 3 \<and> distinct moderate_emoji_examples \<and>
      (sublist ''cheerful'' personality \<longrightarrow> emoji_usage r = ''high'' \<and> emoji_examples r \<noteq> []) \<and>
      (\<forall>w. lower w = ''cheerful'' \<and> sublist w (get_or P ''personality'' []) \<longrightarrow>
         emoji_usage r = ''high'' \<and> emoji_examples r \<noteq> []) \<and>
      (sublist ''formal'' personality \<and> \<not> high \<longrightarrow>
         emoji_usage r = ''minimal'' \<and> emoji_examples r = [])"
    using c1 c2 c3 c5 c6 c7 high_emoji_examples_shape moderate_emoji_examples_shape by blast
  then show ?thesis
    unfolding Let_def hi lo personality_def speaking_style_def r_def .
qed

theorem emoji_decision_precedence_witness:
  "emoji_usage (analyze_tone_and_emoji_patterns cheerful_profile) = ''high'' \<and>
   emoji_examples (analyze_tone_and_emoji_patterns cheerful_profile) = high_emoji_examples \<and>
   emoji_usage (analyze_tone_and_emoji_patterns formal_profile) = ''minimal'' \<and>
   emoji_examples (analyze_tone_and_emoji_patterns formal_profile) = [] \<and>
   emoji_usage (analyze_tone_and_emoji_patterns Map.empty) = ''moderate'' \<and>
   emoji_examples (analyze_tone_and_emoji_patterns Map.empty) = moderate_emoji_examples"
proof -
  let ?high = "\<lambda>P. \<exists>k\<in>set [''cheerful'', ''enthusiastic'', ''upbeat'', ''energetic'', ''bubbly'',
                         ''expressive'', ''fun'', ''playful''].
                 sublist k (lower (get_or P ''personality'' [])) \<or>
                 sublist k (lower (get_or P ''speaking_style'' []))"
  let ?low = "\<lambda>P. \<exists>k\<in>set [''serious'', ''professional'', ''formal'', ''reserved'', ''stoic'',
                        ''academic'', ''scholarly''].
                 sublist k (lower (get_or P ''personality'' [])) \<or>
                 sublist k (lower (get_or P ''speaking_style'' []))"
  have h1: "?high cheerful_profile" by code_simp
  have h2: "\<not> ?high formal_profile" by code_simp
  have l2: "?low formal_profile" by code_simp
  have h3: "\<not> ?high Map.empty" by code_simp
  have l3: "\<not> ?low Map.empty" by code_simp
  from emoji_decision_precedence[of cheerful_profile] h1
  have a: "emoji_usage (analyze_tone_and_emoji_patterns cheerful_profile) = ''high'' \<and>
   emoji_examples (analyze_tone_and_emoji_patterns cheerful_profile) = high_emoji_examples"
    unfolding Let_def by blast
  from emoji_decision_precedence[of formal_profile] h2 l2
  have b: "emoji_usage (analyze_tone_and_emoji_patterns formal_profile) = ''minimal'' \<and>
   emoji_examples (analyze_tone_and_emoji_patterns formal_profile) = []"
    unfolding Let_def by blast
  from emoji_decision_precedence[of Map.empty] h3 l3
  have c: "emoji_usage (analyze_tone_and_emoji_patterns Map.empty) = ''moderate'' \<and>
   emoji_examples (analyze_tone_and_emoji_patterns Map.empty) = moderate_emoji_examples"
    unfolding Let_def by blast
  from a b c show ?thesis by blast
qed

section \<open>The prompt composer\<close>

lemma add_field_append:
  "add_field P key label prompt =
     prompt @ (if truthy (P key) then field_paragraph P (key, label) else [])"
  by (simp add: add_field_def truthy_def field_paragraph_def get_or_def split: option.splits)

lemma add_fields_foldl:
  "foldl (\<lambda>prompt (key, label). add_field P key label prompt) prompt fs =
     prompt @ concat (map (field_paragraph P) (filter (\<lambda>(key, label). truthy (P key)) fs))"
proof (induction fs arbitrary: prompt)
  case Nil
  show ?case by simp
next
  case (Cons f fs)
  obtain key label where f: "f = (key, label)" by (cases f)
  let ?step = "\<lambda>prompt (key, label). add_field P key label prompt"
  have "foldl ?step prompt (f # fs) = foldl ?step (add_field P key label prompt) fs"
    by (simp add: f)
  also have "\<dots> = add_field P key label prompt @
      concat (map (field_paragraph P) (filter (\<lambda>(key, label). truthy (P key)) fs))"
    by (rule Cons.IH)
  also have "\<dots> = prompt @
      concat (map (field_paragraph P) (filter (\<lambda>(key, label). truthy (P key)) (f # fs)))"
    by (simp add: f add_field_append)
  finally show ?case .
qed

lemma generate_system_prompt_foldl:
  "generate_system_prompt P =
     foldl (\<lambda>prompt (key, label). add_field P key label prompt) prompt_header profile_fields
     @ prompt_instructions"
  by (simp add: generate_system_prompt_def profile_fields_def Let_def)

lemma add_field_blank:
  "add_field (P(k \<mapsto> [])) key label prompt = add_field (P(k := None)) key label prompt"
  by (simp add: add_field_def)

lemma get_or_blank: "get_or (P(k \<mapsto> [])) key [] = get_or (P(k := None)) key []"
  by (simp add: get_or_def)

lemma generate_system_prompt_blank:
  "generate_system_prompt (P(k \<mapsto> [])) = generate_system_prompt (P(k := None))"
  unfolding generate_system_prompt_def by (simp only: add_field_blank)

lemma analyze_blank:
  "analyze_tone_and_emoji_patterns (P(k \<mapsto> []))
     = analyze_tone_and_emoji_patterns (P(k := None))"
  unfolding analyze_tone_and_emoji_patterns_def by (simp only: get_or_blank)

text \<open>
  C6: the base prompt is the header, then one labelled paragraph for each field that is
  present and not blank, in the order name, personality, behaviors, speaking_style,
  mannerisms, background, then the instructions; and a field set to the blank (empty)
  text gives the same base prompt and the same composed prompt as the field left out.
\<close>

theorem prompt_lists_present_fields:
  "generate_system_prompt P =
     prompt_header @
     concat (map (\<lambda>(key, label). label @ get_or P key [] @ ''\<newline>\<newline>'')
       (filter (\<lambda>(key, label). \<exists>v. P key = Some v \<and> v \<noteq> [])
          [(''name'', ''Name: ''), (''personality'', ''Personality Traits: ''),
           (''behaviors'', ''Behaviors and Habits: ''), (''speaking_style'', ''Speaking Style: ''),
           (''mannerisms'', ''Mannerisms and Quirks: ''), (''background'', ''Background: '')])) @
     prompt_instructions \<and>
   prefix (generate_system_prompt P) (enhanced_prompt P) \<and>
   generate_system_prompt (P(k \<mapsto> [])) = generate_system_prompt (P(k := None)) \<and>
   enhanced_prompt (P(k \<mapsto> [])) = enhanced_prompt (P(k := None))"
proof (intro conjI)
  have t: "(\<lambda>(key, label). \<exists>v. P key = Some v \<and> v \<noteq> []) = (\<lambda>(key, label). truthy (P key))"
    by (auto simp: truthy_def fun_eq_iff split: option.splits)
  have "map (\<lambda>(key, label). label @ get_or P key [] @ ''\<newline>\<newline>'')
          (filter (\<lambda>(key, label). truthy (P key)) fs)
        = map (field_paragraph P) (filter (\<lambda>(key, label). truthy (P key)) fs)" for fs
    by (simp add: field_paragraph_def)
  then show "generate_system_prompt P =
     prompt_header @
     concat (map (\<lambda>(key, label). label @ get_or P key [] @ ''\<newline>\<newline>'')
       (filter (\<lambda>(key, label). \<exists>v. P key = Some v \<and> v \<noteq> [])
          [(''name'', ''Name: ''), (''personality'', ''Personality Traits: ''),
           (''behaviors'', ''Behaviors and Habits: ''), (''speaking_style'', ''Speaking Style: ''),
           (''mannerisms'', ''Mannerisms and Quirks: ''), (''background'', ''Background: '')])) @
     prompt_instructions"
    unfolding t generate_system_prompt_foldl add_fields_foldl profile_fields_def
    by (simp only: append_assoc)
next
  show "prefix (generate_system_prompt P) (enhanced_prompt P)"
    unfolding enhanced_prompt_def enhance_system_prompt_with_patterns_def Let_def
    by (simp add: prefix_def)
next
  show "generate_system_prompt (P(k \<mapsto> [])) = generate_system_prompt (P(k := None))"
    by (rule generate_system_prompt_blank)
next
  show "enhanced_prompt (P(k \<mapsto> [])) = enhanced_prompt (P(k := None))"
    unfolding enhanced_prompt_def by (simp only: generate_system_prompt_blank analyze_blank)
qed

theorem prompt_lists_present_fields_witness:
  "generate_system_prompt alex_profile =
     prompt_header @ ''Name: Alex\<newline>\<newline>'' @ ''Personality Traits: kind\<newline>\<newline>'' @
     prompt_instructions \<and>
   generate_system_prompt (alex_profile(''background'' \<mapsto> [])) =
     generate_system_prompt (alex_profile(''background'' := None)) \<and>
   enhanced_prompt (alex_profile(''background'' \<mapsto> [])) =
     enhanced_prompt (alex_profile(''background'' := None))"
proof -
  note w = prompt_lists_present_fields[of alex_profile "''background''"]
  have v: "alex_profile ''name'' = Some ''Alex''" "alex_profile ''personality'' = Some ''kind''"
    "alex_profile ''behaviors'' = None" "alex_profile ''speaking_style'' = None"
    "alex_profile ''mannerisms'' = None" "alex_profile ''background'' = None"
    by (simp_all add: alex_profile_def)
  from w have "generate_system_prompt alex_profile =
     prompt_header @
     concat (map (\<lambda>(key, label). label @ get_or alex_profile key [] @ ''\<newline>\<newline>'')
       (filter (\<lambda>(key, label). \<exists>v. alex_profile key = Some v \<and> v \<noteq> [])
          [(''name'', ''Name: ''), (''personality'', ''Personality Traits: ''),
           (''behaviors'', ''Behaviors and Habits: ''), (''speaking_style'', ''Speaking Style: ''),
           (''mannerisms'', ''Mannerisms and Quirks: ''), (''background'', ''Background: '')])) @
     prompt_instructions" by (rule conjunct1)
  then have a: "generate_system_prompt alex_profile =
     prompt_header @ ''Name: Alex\<newline>\<newline>'' @ ''Personality Traits: kind\<newline>\<newline>'' @
     prompt_instructions"
    by (simp add: v get_or_def)
  from w have b: "generate_system_prompt (alex_profile(''background'' \<mapsto> [])) =
     generate_system_prompt (alex_profile(''background'' := None)) \<and>
   enhanced_prompt (alex_profile(''background'' \<mapsto> [])) =
     enhanced_prompt (alex_profile(''background'' := None))" by blast
  from a b show ?thesis by blast
qed

section \<open>The feedback advisor\<close>

text \<open>
  C9, as stated, makes the two bullets depend on the field being populated. The
  advisor tests whether the key is in the profile, not whether it holds any text: for
  the profile whose \<open>speaking_style\<close> is the empty text, the speaking-style bullet is
  in the advice.
\<close>

theorem feedback_advice_blank_field:
  \<open>blank_style_profile ''speaking_style'' = Some [] \<and>
   apply_feedback_to_persona blank_style_profile ''negative'' ''hello'' =
     [[CHR 0xF0, CHR 0x9F, CHR 0x92, CHR 0xA1] @ '' Here are some ways to improve:'',
      ''- Try adjusting the speaking style for better alignment'',
      ''- Consider refining personality traits to better match expectations'',
      ''- Use the 'Refine' feature to get AI-powered suggestions'']\<close>
  by (simp add: blank_style_profile_def kind_profile_def apply_feedback_to_persona_def)

text \<open>
  C9, amended: on the signal \<open>positive\<close> the advisor returns the fixed list of two
  encouragements. On any other signal, so on \<open>negative\<close>, it returns the fixed lead-in,
  then the speaking-style bullet exactly when the profile has the key \<open>speaking_style\<close>,
  then the personality bullet exactly when it has the key \<open>personality\<close>, whatever text
  the key holds, then the fixed closing bullet that recommends the Refine feature.
\<close>

theorem feedback_advice:
  \<open>apply_feedback_to_persona P ''positive'' ctx =
     [[CHR 0xE2, CHR 0x9C, CHR 0x85] @
        '' Great! The character's response style is working well in this context.'',
      ''Consider saving this persona if you haven't already.''] \<and>
   (feedback_type \<noteq> ''positive'' \<longrightarrow>
      apply_feedback_to_persona P feedback_type ctx =
        [[CHR 0xF0, CHR 0x9F, CHR 0x92, CHR 0xA1] @ '' Here are some ways to improve:''] @
        (if ''speaking_style'' \<in> dom P
         then [''- Try adjusting the speaking style for better alignment''] else []) @
        (if ''personality'' \<in> dom P
         then [''- Consider refining personality traits to better match expectations'']
         else []) @
        [''- Use the 'Refine' feature to get AI-powered suggestions''])\<close>
proof (intro conjI impI)
  show \<open>apply_feedback_to_persona P ''positive'' ctx =
     [[CHR 0xE2, CHR 0x9C, CHR 0x85] @
        '' Great! The character's response style is working well in this context.'',
      ''Consider saving this persona if you haven't already.'']\<close>
    unfolding apply_feedback_to_persona_def Let_def by simp
next
  assume n: "feedback_type \<noteq> ''positive''"
  have d: "\<And>k. (k \<in> dom P) = (P k \<noteq> None)" by (simp add: dom_def)
  show \<open>apply_feedback_to_persona P feedback_type ctx =
        [[CHR 0xF0, CHR 0x9F, CHR 0x92, CHR 0xA1] @ '' Here are some ways to improve:''] @
        (if ''speaking_style'' \<in> dom P
         then [''- Try adjusting the speaking style for better alignment''] else []) @
        (if ''personality'' \<in> dom P
         then [''- Consider refining personality traits to better match expectations'']
         else []) @
        [''- Use the 'Refine' feature to get AI-powered suggestions'']\<close>
    unfolding apply_feedback_to_persona_def Let_def if_not_P[OF n] d
    by (cases "P ''speaking_style''"; cases "P ''personality''") simp_all
qed

theorem feedback_advice_witness:
  \<open>''negative'' \<noteq> ''positive'' \<and>
   apply_feedback_to_persona kind_profile ''negative'' ''hello'' =
     [[CHR 0xF0, CHR 0x9F, CHR 0x92, CHR 0xA1] @ '' Here are some ways to improve:'',
      ''- Consider refining personality traits to better match expectations'',
      ''- Use the 'Refine' feature to get AI-powered suggestions''] \<and>
   apply_feedback_to_persona kind_profile ''positive'' ''hello'' =
     [[CHR 0xE2, CHR 0x9C, CHR 0x85] @
        '' Great! The character's response style is working well in this context.'',
      ''Consider saving this persona if you haven't already.'']\<close>
proof -
  have n: "''negative'' \<noteq> ''positive''" by simp
  have d1: "''speaking_style'' \<notin> dom kind_profile" "''personality'' \<in> dom kind_profile"
    by (simp_all add: kind_profile_def)
  note w = feedback_advice[of kind_profile "''hello''" "''negative''"]
  from w n
  have a: \<open>apply_feedback_to_persona kind_profile ''negative'' ''hello'' =
        [[CHR 0xF0, CHR 0x9F, CHR 0x92, CHR 0xA1] @ '' Here are some ways to improve:''] @
        (if ''speaking_style'' \<in> dom kind_profile
         then [''- Try adjusting the speaking style for better alignment''] else []) @
        (if ''personality'' \<in> dom kind_profile
         then [''- Consider refining personality traits to better match expectations'']
         else []) @
        [''- Use the 'Refine' feature to get AI-powered suggestions'']\<close>
    by blast
  from w
  have b: \<open>apply_feedback_to_persona kind_profile ''positive'' ''hello'' =
     [[CHR 0xE2, CHR 0x9C, CHR 0x85] @
        '' Great! The character's response style is working well in this context.'',
      ''Consider saving this persona if you haven't already.'']\<close>
    by (rule conjunct1)
  show ?thesis
    unfolding a b if_P[OF d1(2)] if_not_P[OF d1(1)]
    using n by simp
qed

section \<open>The memory summarizer\<close>

lemma summary_loop_eq:
  assumes "\<forall>i\<in>set is. i < length msgs"
  shows "summary_loop msgs is acc =
     Inr (acc @ map summary_point
            (filter (\<lambda>m. role m = ''user'') (map (\<lambda>i. msgs ! (length msgs - Suc i)) is)))"
  using assms
proof (induction "is" arbitrary: acc)
  case Nil
  show ?case by simp
next
  case (Cons i "is")
  then have i: "i < length msgs" and rest: "\<forall>j\<in>set is. j < length msgs" by simp_all
  from i have ix: "index_from_end msgs (Suc i) = Inr (msgs ! (length msgs - Suc i))"
    by (simp add: index_from_end_def)
  show ?case by (simp add: ix Cons.IH[OF rest])
qed

lemma map_from_end_take_rev:
  assumes "n \<le> length xs"
  shows "map (\<lambda>i. xs ! (length xs - Suc i)) [0..<n] = take n (rev xs)"
proof (rule nth_equalityI)
  show "length (map (\<lambda>i. xs ! (length xs - Suc i)) [0..<n]) = length (take n (rev xs))"
    using assms by simp
next
  fix i assume "i < length (map (\<lambda>i. xs ! (length xs - Suc i)) [0..<n])"
  then have "i < n" by simp
  with assms show "map (\<lambda>i. xs ! (length xs - Suc i)) [0..<n] ! i = take n (rev xs) ! i"
    by (simp add: rev_nth)
qed

lemma summary_points_of_eq:
  "summary_points_of msgs =
     Inr (map summary_point (filter (\<lambda>m. role m = ''user'') (take 4 (rev msgs))))"
proof -
  let ?n = "min 4 (length msgs)"
  have "summary_points_of msgs =
     Inr ([] @ map summary_point (filter (\<lambda>m. role m = ''user'')
            (map (\<lambda>i. msgs ! (length msgs - Suc i)) [0..<?n])))"
    unfolding summary_points_of_def by (rule summary_loop_eq) simp
  moreover have "map (\<lambda>i. msgs ! (length msgs - Suc i)) [0..<?n] = take ?n (rev msgs)"
    by (rule map_from_end_take_rev) simp
  moreover have "take ?n (rev msgs) = take 4 (rev msgs)"
    by (simp add: min_def)
  ultimately show ?thesis by simp
qed

lemma session_block_eq:
  "(let pts = map summary_point (filter (\<lambda>m. role m = ''user'') (take 4 (rev msgs)))
    in if pts \<noteq> [] then ctx @ session_label @ join ''\<newline>'' (take 2 pts) else ctx)
   = ctx @ session_block msgs"
  by (auto simp: Let_def session_block_def recent_user_messages_def take_map)

lemma conversations_loop_eq:
  assumes "map (load_messages json_loads) convs = map Inr msgss"
  shows "conversations_loop json_loads convs ctx = Inr (ctx @ concat (map session_block msgss))"
  using assms
proof (induction convs arbitrary: ctx msgss)
  case Nil
  then show ?case by simp
next
  case (Cons c convs)
  then obtain ms rest where m: "msgss = ms # rest" and l: "load_messages json_loads c = Inr ms"
    and r: "map (load_messages json_loads) convs = map Inr rest"
    by (cases msgss) auto
  have "conversations_loop json_loads (c # convs) ctx =
        conversations_loop json_loads convs (ctx @ session_block ms)"
    using session_block_eq[of ms ctx] by (simp add: l summary_points_of_eq Let_def)
  also have "\<dots> = Inr ((ctx @ session_block ms) @ concat (map session_block rest))"
    by (rule Cons.IH[OF r])
  finally show ?case by (simp add: m)
qed

lemma conversations_loop_raises:
  assumes "c \<in> set convs" "load_messages json_loads c = Inl e"
  shows "\<exists>e'. conversations_loop json_loads convs ctx = Inl e'"
  using assms
proof (induction convs arbitrary: ctx)
  case Nil
  then show ?case by simp
next
  case (Cons d convs)
  show ?case
  proof (cases "load_messages json_loads d")
    case (Inl e')
    then show ?thesis by simp
  next
    case (Inr ms)
    with Cons.prems have "c \<in> set convs" by auto
    from Cons.IH[OF this Cons.prems(2)] show ?thesis
      by (simp add: Inr summary_points_of_eq)
  qed
qed

lemma length_recent_user_messages: "length (recent_user_messages msgs) \<le> 2"
  by (simp add: recent_user_messages_def)

lemma recent_user_messages_user: "m \<in> set (recent_user_messages msgs) \<Longrightarrow> role m = ''user''"
  unfolding recent_user_messages_def by (auto dest: in_set_takeD)






lemma build_memory_context_eq:
  assumes "db_module persona_name user_id 3 = Inr convs"
    and "map (load_messages json_loads) convs = map Inr msgss"
  shows "build_memory_context json_loads persona_name db_module user_id =
           (if convs = [] then []
            else memory_header @ concat (map session_block msgss) @ memory_footer)"
  by (simp add: build_memory_context_def assms(1) conversations_loop_eq[OF assms(2)])





text \<open>
  C7: \<open>build_memory_context\<close> returns a text on every input. When the storage call
  raises, and when the messages of a returned conversation cannot be decoded (the only
  way in which the loops can raise), the text is empty; in every other case it is empty
  or the header, the session blocks and the closing sentence.
\<close>

theorem memory_context_never_raises:
  "(db_module persona_name user_id 3 = Inl e \<longrightarrow>
      build_memory_context json_loads persona_name db_module user_id = []) \<and>
   (db_module persona_name user_id 3 = Inr convs \<and> c \<in> set convs \<and>
    load_messages json_loads c = Inl e \<longrightarrow>
      build_memory_context json_loads persona_name db_module user_id = []) \<and>
   (db_module persona_name user_id 3 = Inr convs \<and>
    conversations_loop json_loads convs memory_header = Inl e \<longrightarrow>
      build_memory_context json_loads persona_name db_module user_id = []) \<and>
   (build_memory_context json_loads persona_name db_module user_id = [] \<or>
    (\<exists>cs msgss. db_module persona_name user_id 3 = Inr cs \<and> cs \<noteq> [] \<and>
       map (load_messages json_loads) cs = map Inr msgss \<and>
       build_memory_context json_loads persona_name db_module user_id =
         memory_header @ concat (map session_block msgss) @ memory_footer))"
proof (intro conjI impI)
  assume "db_module persona_name user_id 3 = Inl e"
  then show "build_memory_context json_loads persona_name db_module user_id = []"
    by (simp add: build_memory_context_def)
next
  assume a: "db_module persona_name user_id 3 = Inr convs \<and> c \<in> set convs \<and>
    load_messages json_loads c = Inl e"
  then obtain e' where "conversations_loop json_loads convs memory_header = Inl e'"
    using conversations_loop_raises[of c convs json_loads e memory_header] by blast
  with a show "build_memory_context json_loads persona_name db_module user_id = []"
    by (simp add: build_memory_context_def)
next
  assume "db_module persona_name user_id 3 = Inr convs \<and>
    conversations_loop json_loads convs memory_header = Inl e"
  then show "build_memory_context json_loads persona_name db_module user_id = []"
    by (simp add: build_memory_context_def)
next
  show "build_memory_context json_loads persona_name db_module user_id = [] \<or>
    (\<exists>cs msgss. db_module persona_name user_id 3 = Inr cs \<and> cs \<noteq> [] \<and>
       map (load_messages json_loads) cs = map Inr msgss \<and>
       build_memory_context json_loads persona_name db_module user_id =
         memory_header @ concat (map session_block msgss) @ memory_footer)"
  proof (cases "db_module persona_name user_id 3")
    case (Inl e')
    then show ?thesis by (simp add: build_memory_context_def)
  next
    case (Inr cs)
    show ?thesis
    proof (cases "\<exists>c\<in>set cs. \<exists>e'. load_messages json_loads c = Inl e'")
      case True
      then obtain c' e' where "c' \<in> set cs" "load_messages json_loads c' = Inl e'" by blast
      then obtain e'' where "conversations_loop json_loads cs memory_header = Inl e''"
        using conversations_loop_raises[of c' cs json_loads e' memory_header] by blast
      then show ?thesis by (simp add: build_memory_context_def Inr)
    next
      case False
      then have "\<forall>c\<in>set cs. \<exists>ms. load_messages json_loads c = Inr ms"
        by (metis sum.exhaust)
      then have "\<exists>msgss. map (load_messages json_loads) cs = map Inr msgss"
      proof (induction cs)
        case Nil
        show ?case by simp
      next
        case (Cons d ds)
        then obtain ms msgss where "load_messages json_loads d = Inr ms"
          "map (load_messages json_loads) ds = map Inr msgss" by auto
        then have "map (load_messages json_loads) (d # ds) = map Inr (ms # msgss)" by simp
        then show ?case by blast
      qed
      then obtain msgss where m: "map (load_messages json_loads) cs = map Inr msgss" by blast
      show ?thesis
        using build_memory_context_eq[of db_module persona_name user_id cs json_loads msgss,
            OF Inr m] Inr m
        by (cases "cs = []") auto
    qed
  qed
qed

theorem memory_context_never_raises_witness:
  "get_persona_conversations down_db ''Alex'' None 3 = Inl (Error ''connection refused'') \<and>
   build_memory_context no_json ''Alex'' (get_persona_conversations down_db) None = [] \<and>
   get_persona_conversations broken_db ''Alex'' None 3 =
     Inr [\<lparr>conv_id = 1, messages = JsonText ''{'', created_at = 1\<rparr>] \<and>
   load_messages no_json \<lparr>conv_id = 1, messages = JsonText ''{'', created_at = 1\<rparr> =
     Inl (JSONDecodeError ''Expecting value'') \<and>
   build_memory_context no_json ''Alex'' (get_persona_conversations broken_db) None = []"
proof -
  let ?c = "\<lparr>conv_id = 1, messages = JsonText ''{'', created_at = 1\<rparr>"
  have a: "get_persona_conversations down_db ''Alex'' None 3 = Inl (Error ''connection refused'')"
    by code_simp
  have b: "get_persona_conversations broken_db ''Alex'' None 3 = Inr [?c]"
    by code_simp
  have c: "load_messages no_json ?c = Inl (JSONDecodeError ''Expecting value'')"
    by (simp add: load_messages_def no_json_def)
  have m: "?c \<in> set [?c]" by simp
  from memory_context_never_raises[of "get_persona_conversations down_db" "''Alex''" None
      "Error ''connection refused''" no_json] a
  have d: "build_memory_context no_json ''Alex'' (get_persona_conversations down_db) None = []"
    by blast
  from memory_context_never_raises[of "get_persona_conversations broken_db" "''Alex''" None
      "JSONDecodeError ''Expecting value''" no_json "[?c]" ?c] b c m
  have e: "build_memory_context no_json ''Alex'' (get_persona_conversations broken_db) None = []"
    by blast
  from a b c d e show ?thesis by blast
qed

section \<open>The conversation analyzer\<close>

lemma split_pieces_ne: "split_pieces sep s \<noteq> []"
  by (induction sep s rule: split_pieces.induct) (auto split: list.splits)

lemma split_pieces_prefix:
  assumes "sep \<noteq> []" "prefix sep s"
  shows "split_pieces sep s = [] # split_pieces sep (drop (length sep) s)"
proof (cases s)
  case Nil
  with assms show ?thesis by simp
next
  case (Cons c s')
  with assms show ?thesis by simp
qed

lemma split_pieces_second:
  assumes "sep \<noteq> []" "prefix sep s"
  shows "1 < length (split_pieces sep s)"
    and "split_pieces sep s ! 1 = hd (split_pieces sep (drop (length sep) s))"
  using split_pieces_ne[of sep "drop (length sep) s"]
  by (cases "split_pieces sep (drop (length sep) s)";
      simp add: split_pieces_prefix[OF assms])+

lemma hd_split_pieces:
  assumes "sep \<noteq> []"
  shows "\<exists>rest. s = hd (split_pieces sep s) @ rest \<and>
           \<not> sublist sep (hd (split_pieces sep s)) \<and> (rest = [] \<or> prefix sep rest)"
  using assms
proof (induction sep s rule: split_pieces.induct)
  case (1 sep)
  then show ?case by simp
next
  case (2 sep c s)
  show ?case
  proof (cases "prefix sep (c # s)")
    case True
    with "2.prems" show ?thesis by simp
  next
    case False
    then obtain rest where r: "s = hd (split_pieces sep s) @ rest"
      "\<not> sublist sep (hd (split_pieces sep s))" "rest = [] \<or> prefix sep rest"
      using "2.IH"(2) "2.prems" by blast
    obtain p ps where p: "split_pieces sep s = p # ps"
      using split_pieces_ne[of sep s] by (cases "split_pieces sep s") auto
    have h: "hd (split_pieces sep (c # s)) = c # p"
      using False by (simp add: p)
    have "\<not> prefix sep (c # p)"
    proof
      assume "prefix sep (c # p)"
      then have "prefix sep ((c # p) @ rest)" by (rule prefix_prefix)
      with r(1) p False show False by simp
    qed
    with r(2) p have "\<not> sublist sep (c # p)" by (simp add: sublist_Cons_right)
    with r p h show ?thesis by auto
  qed
qed

lemma cleaned_text_eq:
  "cleaned_text response_text =
     Inr (let text = strip whitespace response_text in
          if prefix fence text then
            (let piece = hd (split_pieces fence (drop (length fence) text))
             in if prefix ''json'' piece then drop 4 piece else piece)
          else text)"
proof -
  have f: "fence \<noteq> []" by (simp add: fence_def)
  let ?text = "strip whitespace response_text"
  show ?thesis
  proof (cases "prefix fence ?text")
    case False
    then show ?thesis by (simp add: cleaned_text_def Let_def)
  next
    case True
    have i: "index (split_pieces fence ?text) 1 =
        Inr (hd (split_pieces fence (drop (length fence) ?text)))"
      using split_pieces_second[OF f True] by (simp add: index_def)
    show ?thesis
      unfolding cleaned_text_def Let_def split_def
      by (simp only: True f i if_True if_False sum.case)
  qed
qed

lemma analyze_too_few:
  assumes "db_module persona_name user_id = Inr all_messages" "length all_messages < 10"
  shows "analyze_conversation_patterns json_loads persona_name db_module client user_id =
     (failure ''Need at least 5 conversation exchanges (10 messages) to analyze patterns.'', [])"
  using assms by (simp add: analyze_conversation_patterns_def)

lemma analyze_requests:
  assumes "db_module persona_name user_id = Inr all_messages" "10 \<le> length all_messages"
  shows "snd (analyze_conversation_patterns json_loads persona_name db_module client user_id) =
     [(''gemini-2.0-flash-exp'', analysis_prompt persona_name all_messages)]"
  using assms
  by (simp add: analyze_conversation_patterns_def Let_def
      split: sum.splits exn.splits)

lemma analyze_parsed:
  assumes "db_module persona_name user_id = Inr all_messages" "10 \<le> length all_messages"
    and "client ''gemini-2.0-flash-exp'' (analysis_prompt persona_name all_messages)
           = Inr (Some response_text)"
    and "response_text \<noteq> []"
    and "cleaned_text response_text = Inr text"
  shows "fst (analyze_conversation_patterns json_loads persona_name db_module client user_id) =
     (case json_loads text of
        Inr a \<Rightarrow> \<lparr>success = True, message = None, analysis = Some a\<rparr>
      | Inl (JSONDecodeError m) \<Rightarrow>
          \<lparr>success = True, message = None, analysis = Some (raw_analysis text)\<rparr>
      | Inl (Error m) \<Rightarrow> error_result (Error m))"
  using assms
  by (simp add: analyze_conversation_patterns_def Let_def truthy_def
      split: sum.splits exn.splits)

lemma analyze_result_shape:
  "(success (fst (analyze_conversation_patterns json_loads persona_name db_module client user_id))
    \<and> analysis (fst (analyze_conversation_patterns json_loads persona_name db_module client
         user_id)) \<noteq> None) \<or>
   (\<not> success (fst (analyze_conversation_patterns json_loads persona_name db_module client
         user_id))
    \<and> analysis (fst (analyze_conversation_patterns json_loads persona_name db_module client
         user_id)) = None)"
  by (simp add: analyze_conversation_patterns_def Let_def failure_def error_result_def
      split: sum.split exn.split)

lemma analyze_failure_no_analysis:
  "\<not> success (fst (analyze_conversation_patterns json_loads persona_name db_module client user_id))
   \<Longrightarrow> analysis (fst (analyze_conversation_patterns json_loads persona_name db_module client
         user_id)) = None"
  using analyze_result_shape[of json_loads persona_name db_module client user_id] by blast

text \<open>
  C4: when the storage returns fewer than 10 messages, the analyzer returns the failure
  record with the message \<open>Need at least 5 conversation exchanges (10 messages) to
  analyze patterns.\<close> (which contains \<open>need at least\<close>, with a capital N) and sends no
  request to the completion capability; when it returns 10 or more, the analyzer sends
  one request, the analysis prompt, to the completion capability.
\<close>

theorem analysis_needs_ten_messages:
  assumes "db_module persona_name user_id = Inr all_messages"
  shows "(length all_messages < 10 \<longrightarrow>
            analyze_conversation_patterns json_loads persona_name db_module client user_id =
              (\<lparr>success = False,
                message = Some ''Need at least 5 conversation exchanges (10 messages) to analyze patterns.'',
                analysis = None\<rparr>, [])) \<and>
         sublist ''Need at least''
           ''Need at least 5 conversation exchanges (10 messages) to analyze patterns.'' \<and>
         sublist ''need at least''
           (lower ''Need at least 5 conversation exchanges (10 messages) to analyze patterns.'') \<and>
         (10 \<le> length all_messages \<longrightarrow>
            snd (analyze_conversation_patterns json_loads persona_name db_module client user_id) =
              [(''gemini-2.0-flash-exp'', analysis_prompt persona_name all_messages)])"
proof (intro conjI impI)
  assume "length all_messages < 10"
  with assms show
    "analyze_conversation_patterns json_loads persona_name db_module client user_id =
              (\<lparr>success = False,
                message = Some ''Need at least 5 conversation exchanges (10 messages) to analyze patterns.'',
                analysis = None\<rparr>, [])"
    by (simp only: analyze_too_few failure_def)
next
  show "sublist ''Need at least''
           ''Need at least 5 conversation exchanges (10 messages) to analyze patterns.''"
    by code_simp
next
  show "sublist ''need at least''
           (lower ''Need at least 5 conversation exchanges (10 messages) to analyze patterns.'')"
    by code_simp
next
  assume "10 \<le> length all_messages"
  with assms show
    "snd (analyze_conversation_patterns json_loads persona_name db_module client user_id) =
              [(''gemini-2.0-flash-exp'', analysis_prompt persona_name all_messages)]"
    by (rule analyze_requests)
qed

theorem analysis_needs_ten_messages_witness:
  \<open>length (take 9 (exchanges 5)) = 9 \<and> length (exchanges 5) = 10 \<and>
   analyze_conversation_patterns loads_topics ''Alex'' (stored_history (take 9 (exchanges 5)))
       (reply ''{"common_topics": ["travel"]}'') None =
     (\<lparr>success = False,
       message = Some ''Need at least 5 conversation exchanges (10 messages) to analyze patterns.'',
       analysis = None\<rparr>, []) \<and>
   snd (analyze_conversation_patterns loads_topics ''Alex'' (stored_history (exchanges 5))
       (reply ''{"common_topics": ["travel"]}'') None) =
     [(''gemini-2.0-flash-exp'', analysis_prompt ''Alex'' (exchanges 5))]\<close>
proof -
  have l9: "length (take 9 (exchanges 5)) = 9" by code_simp
  have l10: "length (exchanges 5) = 10" by code_simp
  have s9: "stored_history (take 9 (exchanges 5)) ''Alex'' None = Inr (take 9 (exchanges 5))"
    by (simp add: stored_history_def)
  have s10: "stored_history (exchanges 5) ''Alex'' None = Inr (exchanges 5)"
    by (simp add: stored_history_def)
  from analysis_needs_ten_messages[of "stored_history (take 9 (exchanges 5))" "''Alex''" None
      "take 9 (exchanges 5)" loads_topics \<open>reply ''{"common_topics": ["travel"]}''\<close>, OF s9]
    l9
  have a: \<open>analyze_conversation_patterns loads_topics ''Alex'' (stored_history (take 9 (exchanges 5)))
       (reply ''{"common_topics": ["travel"]}'') None =
     (\<lparr>success = False,
       message = Some ''Need at least 5 conversation exchanges (10 messages) to analyze patterns.'',
       analysis = None\<rparr>, [])\<close>
    by simp
  from analysis_needs_ten_messages[of "stored_history (exchanges 5)" "''Alex''" None
      "exchanges 5" loads_topics \<open>reply ''{"common_topics": ["travel"]}''\<close>, OF s10]
    l10
  have b: \<open>snd (analyze_conversation_patterns loads_topics ''Alex'' (stored_history (exchanges 5))
       (reply ''{"common_topics": ["travel"]}'') None) =
     [(''gemini-2.0-flash-exp'', analysis_prompt ''Alex'' (exchanges 5))]\<close>
    by simp
  from l9 l10 a b show ?thesis by blast
qed

text \<open>
  C5, as stated, says that a parse failure is never reported as \<open>success=false\<close>. The
  inner handler catches \<open>json.JSONDecodeError\<close> only. On a response of 1000 opening
  brackets \<open>json.loads\<close> raises \<open>RecursionError\<close>, which is not a
  \<open>JSONDecodeError\<close>; it reaches the outer handler, and the analyzer returns
  \<open>success=false\<close> with the message \<open>Error analyzing patterns: ...\<close>.
\<close>

theorem parse_failure_reported_as_failure:
  "length (exchanges 5) = 10 \<and> deep_text \<noteq> [] \<and>
   cleaned_text deep_text = Inr deep_text \<and>
   loads_deep deep_text =
     Inl (Error ''maximum recursion depth exceeded while decoding a JSON array from a unicode string'') \<and>
   fst (analyze_conversation_patterns loads_deep ''Alex'' (stored_history (exchanges 5))
          (reply deep_text) None) =
     \<lparr>success = False,
      message = Some ''Error analyzing patterns: maximum recursion depth exceeded while decoding a JSON array from a unicode string'',
      analysis = None\<rparr>"
proof -
  have l: "length (exchanges 5) = 10" by code_simp
  have n: "deep_text \<noteq> []" by (simp add: deep_text_def)
  have h: "hd deep_text = CHR ''[''" "last deep_text = CHR ''[''"
    by (simp_all add: deep_text_def)
  have "strip whitespace deep_text = deep_text"
    unfolding strip_fixed_iff h by (simp add: whitespace_def)
  moreover have "\<not> prefix fence deep_text"
  proof
    assume "prefix fence deep_text"
    then obtain zs where "deep_text = fence @ zs" by (auto simp: prefix_def)
    then have "hd deep_text = hd (fence @ zs)" by (rule arg_cong)
    also have "\<dots> = CHR 0x60" by (simp add: fence_def)
    finally show False using h(1) by simp
  qed
  ultimately have c: "cleaned_text deep_text = Inr deep_text"
    by (simp add: cleaned_text_def Let_def)
  have j: "loads_deep deep_text =
     Inl (Error ''maximum recursion depth exceeded while decoding a JSON array from a unicode string'')"
    by (simp add: loads_deep_def)
  have s: "stored_history (exchanges 5) ''Alex'' None = Inr (exchanges 5)"
    by (simp add: stored_history_def)
  have r: "reply deep_text ''gemini-2.0-flash-exp'' (analysis_prompt ''Alex'' (exchanges 5))
      = Inr (Some deep_text)"
    by (simp add: reply_def)
  have "fst (analyze_conversation_patterns loads_deep ''Alex'' (stored_history (exchanges 5))
          (reply deep_text) None) =
     \<lparr>success = False,
      message = Some ''Error analyzing patterns: maximum recursion depth exceeded while decoding a JSON array from a unicode string'',
      analysis = None\<rparr>"
    using analyze_parsed[of "stored_history (exchanges 5)" "''Alex''" None "exchanges 5"
        "reply deep_text" deep_text deep_text loads_deep, OF s _ r n c] l
    by (simp add: j error_result_def failure_def)
  with l n c j show ?thesis by blast
qed

text \<open>
  C5, amended: for a non-empty response text of the completion capability (after a
  storage result of at least 10 messages), the text handed to the parser is the
  response with the white space at both ends removed and, when that starts with the
  code fence, the piece between this fence and the next one (or the end), without a
  leading \<open>json\<close>. When the parser returns a value, the analyzer returns
  \<open>success=true\<close> with that value as the analysis; when the parser raises
  \<open>JSONDecodeError\<close>, the analyzer returns \<open>success=true\<close> with an analysis whose
  only field is \<open>raw_response\<close>, holding the cleaned text, so that a
  \<open>JSONDecodeError\<close> is never reported as \<open>success=false\<close>; when the parser raises
  any other exception, the analyzer returns \<open>success=false\<close> with the message
  \<open>Error analyzing patterns: \<close> and the text of the exception.
\<close>

theorem analysis_parse_outcomes:
  assumes "db_module persona_name user_id = Inr all_messages"
    and "10 \<le> length all_messages"
    and "client ''gemini-2.0-flash-exp'' (analysis_prompt persona_name all_messages)
           = Inr (Some response_text)"
    and "response_text \<noteq> []"
  shows "\<exists>text. cleaned_text response_text = Inr text \<and>
     (\<not> prefix ''```'' (strip whitespace response_text) \<longrightarrow>
        text = strip whitespace response_text) \<and>
     (prefix ''```'' (strip whitespace response_text) \<longrightarrow>
        (\<exists>piece rest. strip whitespace response_text = ''```'' @ piece @ rest \<and>
           \<not> sublist ''```'' piece \<and> (rest = [] \<or> prefix ''```'' rest) \<and>
           text = (if prefix ''json'' piece then drop 4 piece else piece))) \<and>
     (\<forall>a. json_loads text = Inr a \<longrightarrow>
        fst (analyze_conversation_patterns json_loads persona_name db_module client user_id) =
          \<lparr>success = True, message = None, analysis = Some a\<rparr>) \<and>
     (\<forall>m. json_loads text = Inl (JSONDecodeError m) \<longrightarrow>
        fst (analyze_conversation_patterns json_loads persona_name db_module client user_id) =
          \<lparr>success = True, message = None,
           analysis = Some \<lparr>common_topics = None, successful_patterns = None,
             suggested_personality_additions = None, suggested_behavior_additions = None,
             speaking_style_refinements = None, raw_response = Some text\<rparr>\<rparr>) \<and>
     (\<forall>m. json_loads text = Inl (Error m) \<longrightarrow>
        fst (analyze_conversation_patterns json_loads persona_name db_module client user_id) =
          \<lparr>success = False, message = Some (''Error analyzing patterns: '' @ m),
           analysis = None\<rparr>)"
proof -
  let ?t = "strip whitespace response_text"
  let ?piece = "hd (split_pieces fence (drop (length fence) ?t))"
  define cleaned where "cleaned =
     (if prefix fence ?t then (if prefix ''json'' ?piece then drop 4 ?piece else ?piece) else ?t)"
  have c: "cleaned_text response_text = Inr cleaned"
    unfolding cleaned_def by (simp add: cleaned_text_eq Let_def)
  have f: "fence = ''```''" by (simp add: fence_def)
  have p1: "\<not> prefix ''```'' ?t \<longrightarrow> cleaned = ?t"
    unfolding cleaned_def f by simp
  have p2: "prefix ''```'' ?t \<longrightarrow>
        (\<exists>piece rest. ?t = ''```'' @ piece @ rest \<and>
           \<not> sublist ''```'' piece \<and> (rest = [] \<or> prefix ''```'' rest) \<and>
           cleaned = (if prefix ''json'' piece then drop 4 piece else piece))"
  proof
    assume pre: "prefix ''```'' ?t"
    then have d: "?t = fence @ drop (length fence) ?t"
      unfolding f by (auto simp: prefix_def)
    have "fence \<noteq> []" by (simp add: f)
    from hd_split_pieces[OF this, of "drop (length fence) ?t"]
    obtain rest where r: "drop (length fence) ?t = ?piece @ rest"
      "\<not> sublist fence ?piece" "rest = [] \<or> prefix fence rest" by blast
    have "?t = ''```'' @ ?piece @ rest" using d r(1) unfolding f by simp
    moreover have "cleaned = (if prefix ''json'' ?piece then drop 4 ?piece else ?piece)"
      using pre unfolding cleaned_def f by simp
    ultimately show "\<exists>piece rest. ?t = ''```'' @ piece @ rest \<and>
           \<not> sublist ''```'' piece \<and> (rest = [] \<or> prefix ''```'' rest) \<and>
           cleaned = (if prefix ''json'' piece then drop 4 piece else piece)"
      using r(2,3) unfolding f by blast
  qed
  note a = analyze_parsed[of db_module persona_name user_id all_messages client response_text
      cleaned json_loads, OF assms c]
  have p3: "\<forall>a. json_loads cleaned = Inr a \<longrightarrow>
        fst (analyze_conversation_patterns json_loads persona_name db_module client user_id) =
          \<lparr>success = True, message = None, analysis = Some a\<rparr>"
    by (simp add: a)
  have p4: "\<forall>m. json_loads cleaned = Inl (JSONDecodeError m) \<longrightarrow>
        fst (analyze_conversation_patterns json_loads persona_name db_module client user_id) =
          \<lparr>success = True, message = None,
           analysis = Some \<lparr>common_topics = None, successful_patterns = None,
             suggested_personality_additions = None, suggested_behavior_additions = None,
             speaking_style_refinements = None, raw_response = Some cleaned\<rparr>\<rparr>"
    by (simp add: a raw_analysis_def)
  have p5: "\<forall>m. json_loads cleaned = Inl (Error m) \<longrightarrow>
        fst (analyze_conversation_patterns json_loads persona_name db_module client user_id) =
          \<lparr>success = False, message = Some (''Error analyzing patterns: '' @ m),
           analysis = None\<rparr>"
    by (simp add: a error_result_def failure_def)
  from c p1 p2 p3 p4 p5 show ?thesis by blast
qed

theorem analysis_parse_outcomes_witness:
  \<open>fst (analyze_conversation_patterns loads_topics ''Alex'' (stored_history (exchanges 5))
          (reply ''```json{"common_topics": ["travel"]}```'') None) =
     \<lparr>success = True, message = None, analysis = Some topics_analysis\<rparr> \<and>
   fst (analyze_conversation_patterns loads_topics ''Alex'' (stored_history (exchanges 5))
          (reply ([CHR 0xA0] @ '' It went well.'' @ [CHR 0x85, CHR 0x0A])) None) =
     \<lparr>success = True, message = None,
      analysis = Some \<lparr>common_topics = None, successful_patterns = None,
        suggested_personality_additions = None, suggested_behavior_additions = None,
        speaking_style_refinements = None, raw_response = Some ''It went well.''\<rparr>\<rparr>\<close>
proof -
  have s: "stored_history (exchanges 5) ''Alex'' None = Inr (exchanges 5)"
    by (simp add: stored_history_def)
  have l: "10 \<le> length (exchanges 5)" by code_simp
  have r: "reply t ''gemini-2.0-flash-exp'' (analysis_prompt ''Alex'' (exchanges 5)) = Inr (Some t)"
    for t by (simp add: reply_def)
  have c1: \<open>cleaned_text ''```json{"common_topics": ["travel"]}```'' =
      Inr ''{"common_topics": ["travel"]}''\<close> by code_simp
  have c2: \<open>cleaned_text ([CHR 0xA0] @ '' It went well.'' @ [CHR 0x85, CHR 0x0A]) =
      Inr ''It went well.''\<close> by code_simp
  have j1: \<open>loads_topics ''{"common_topics": ["travel"]}'' = Inr topics_analysis\<close>
    by (simp add: loads_topics_def)
  have j2: \<open>loads_topics ''It went well.'' = Inl (JSONDecodeError ''Expecting value'')\<close>
    by (simp add: loads_topics_def)
  have n1: \<open>''```json{"common_topics": ["travel"]}```'' \<noteq> []\<close> by simp
  have n2: \<open>[CHR 0xA0] @ '' It went well.'' @ [CHR 0x85, CHR 0x0A] \<noteq> []\<close> by simp
  from analysis_parse_outcomes[of "stored_history (exchanges 5)" "''Alex''" None "exchanges 5"
      \<open>reply ''```json{"common_topics": ["travel"]}```''\<close>
      \<open>''```json{"common_topics": ["travel"]}```''\<close> loads_topics, OF s l r n1]
  have a: \<open>fst (analyze_conversation_patterns loads_topics ''Alex'' (stored_history (exchanges 5))
          (reply ''```json{"common_topics": ["travel"]}```'') None) =
     \<lparr>success = True, message = None, analysis = Some topics_analysis\<rparr>\<close>
    unfolding c1 using j1 by blast
  from analysis_parse_outcomes[of "stored_history (exchanges 5)" "''Alex''" None "exchanges 5"
      \<open>reply ([CHR 0xA0] @ '' It went well.'' @ [CHR 0x85, CHR 0x0A])\<close>
      \<open>[CHR 0xA0] @ '' It went well.'' @ [CHR 0x85, CHR 0x0A]\<close> loads_topics, OF s l r n2]
  have b: \<open>fst (analyze_conversation_patterns loads_topics ''Alex'' (stored_history (exchanges 5))
          (reply ([CHR 0xA0] @ '' It went well.'' @ [CHR 0x85, CHR 0x0A])) None) =
     \<lparr>success = True, message = None,
      analysis = Some \<lparr>common_topics = None, successful_patterns = None,
        suggested_personality_additions = None, suggested_behavior_additions = None,
        speaking_style_refinements = None, raw_response = Some ''It went well.''\<rparr>\<rparr>\<close>
    unfolding c2 using j2 by blast
  from a b show ?thesis by blast
qed

section \<open>A failed analysis and the profile\<close>

text \<open>
  C10: a learning analysis without the key \<open>analysis\<close> leaves the profile as it is: the
  mutator returns a profile equal to the one it is given (on the store: a new object
  with the same items). Every record that the analyzer returns with \<open>success=false\<close>
  is such a record.
\<close>

theorem failed_analysis_keeps_profile:
  "(analysis la = None \<longrightarrow> apply_learning_to_persona P la = P) \<and>
   (analysis la = None \<and> r < length h \<longrightarrow>
      apply_learning_to_persona_store h r la = (length h, h @ [h ! r])) \<and>
   (\<not> success (fst (analyze_conversation_patterns json_loads persona_name db_module client
          user_id)) \<longrightarrow>
      analysis (fst (analyze_conversation_patterns json_loads persona_name db_module client
          user_id)) = None \<and>
      apply_learning_to_persona P
        (fst (analyze_conversation_patterns json_loads persona_name db_module client user_id))
        = P)"
proof (intro conjI impI)
  assume "analysis la = None"
  then show "apply_learning_to_persona P la = P"
    by (simp add: apply_learning_to_persona_def)
next
  assume "analysis la = None \<and> r < length h"
  then show "apply_learning_to_persona_store h r la = (length h, h @ [h ! r])"
    by (simp add: store_result apply_learning_to_persona_def)
next
  assume f: "\<not> success (fst (analyze_conversation_patterns json_loads persona_name db_module
      client user_id))"
  then show n: "analysis (fst (analyze_conversation_patterns json_loads persona_name db_module
      client user_id)) = None"
    by (rule analyze_failure_no_analysis)
  then show "apply_learning_to_persona P
        (fst (analyze_conversation_patterns json_loads persona_name db_module client user_id))
        = P"
    by (simp add: apply_learning_to_persona_def)
qed

theorem failed_analysis_keeps_profile_witness:
  \<open>analysis (failure ''Unable to generate analysis at this time.'') = None \<and>
   apply_learning_to_persona kind_profile (failure ''Unable to generate analysis at this time.'')
     = kind_profile \<and>
   \<not> success (fst (analyze_conversation_patterns loads_topics ''Alex''
        (stored_history (take 9 (exchanges 5))) (reply ''{}'') None)) \<and>
   apply_learning_to_persona kind_profile
     (fst (analyze_conversation_patterns loads_topics ''Alex''
        (stored_history (take 9 (exchanges 5))) (reply ''{}'') None)) = kind_profile\<close>
proof -
  have n: "analysis (failure ''Unable to generate analysis at this time.'') = None"
    by (simp add: failure_def)
  have s: "stored_history (take 9 (exchanges 5)) ''Alex'' None = Inr (take 9 (exchanges 5))"
    by (simp add: stored_history_def)
  have l: "length (take 9 (exchanges 5)) < 10" by code_simp
  have f: "\<not> success (fst (analyze_conversation_patterns loads_topics ''Alex''
        (stored_history (take 9 (exchanges 5))) (reply ''{}'') None))"
    by (simp add: analyze_too_few[of "stored_history (take 9 (exchanges 5))" "''Alex''" None
          "take 9 (exchanges 5)", OF s l] failure_def)
  from failed_analysis_keeps_profile[of "failure ''Unable to generate analysis at this time.''"
      kind_profile 0 "[]" loads_topics "''Alex''" "stored_history (take 9 (exchanges 5))"
      "reply ''{}''" None] n f
  show ?thesis by blast
qed

end
